theory Spec2Isabelle
  imports Complex_Main
begin

section \<open>Match coordinator (server/gameManager.js)\<close>

text \<open>
  JavaScript numbers are modelled as \<open>real\<close> where a fraction can occur (the evaluated
  result of a submitted expression and its distance to the target) and as \<open>int\<close> where the
  code only ever produces integers (cards, targets, health points, damage).
  The value \<open>null\<close> is \<open>None\<close>; \<open>Infinity\<close>, which \<open>resolveRound\<close> uses as the distance of
  a missing result, is the \<open>None\<close> of a distance (see \<open>diffLess\<close>).
\<close>

text \<open>
  The keys of \<open>DIFFICULTY_CONFIG\<close>. A stored game always carries one of the three:
  \<open>initializeGame\<close> reads \<open>config.targetRange.min\<close> and \<open>config.playerHp\<close> before
  \<open>games.set\<close>, which throws for any other key.
\<close>

datatype Difficulty = easy | medium | hard

record AccuracyThresholds =
  perfect :: real
  excellent :: real
  good :: real
  ok :: real
  miss :: real

record MinMax =
  rmin :: int
  rmax :: int

record VariableConfig =
  enabled :: bool
  vcount :: nat
  valueRange :: MinMax

record Config =
  cardRange :: MinMax
  cardCount :: nat
  targetRange :: MinMax
  allowParentheses :: bool
  operatorSymbols :: "char list"
  accuracyThresholds :: AccuracyThresholds
  playerHp :: int
  variableConfig :: "VariableConfig option"

fun DIFFICULTY_CONFIG :: "Difficulty \<Rightarrow> Config" where
  "DIFFICULTY_CONFIG easy =
     \<lparr> cardRange = \<lparr> rmin = 1, rmax = 9 \<rparr>, cardCount = 4,
       targetRange = \<lparr> rmin = 5, rmax = 30 \<rparr>, allowParentheses = False,
       operatorSymbols = [CHR ''+'', CHR ''-''],
       accuracyThresholds = \<lparr> perfect = 0, excellent = 3, good = 6, ok = 10, miss = 15 \<rparr>,
       playerHp = 150, variableConfig = None \<rparr>"
| "DIFFICULTY_CONFIG medium =
     \<lparr> cardRange = \<lparr> rmin = 2, rmax = 10 \<rparr>, cardCount = 3,
       targetRange = \<lparr> rmin = 10, rmax = 60 \<rparr>, allowParentheses = True,
       operatorSymbols = [CHR ''+'', CHR ''-'', CHR ''*''],
       accuracyThresholds = \<lparr> perfect = 0, excellent = 2, good = 4, ok = 7, miss = 12 \<rparr>,
       playerHp = 200,
       variableConfig = Some \<lparr> enabled = True, vcount = 1, valueRange = \<lparr> rmin = 2, rmax = 8 \<rparr> \<rparr> \<rparr>"
| "DIFFICULTY_CONFIG hard =
     \<lparr> cardRange = \<lparr> rmin = 2, rmax = 20 \<rparr>, cardCount = 3,
       targetRange = \<lparr> rmin = 20, rmax = 120 \<rparr>, allowParentheses = True,
       operatorSymbols = [CHR ''+'', CHR ''-'', CHR ''*'', CHR ''/''],
       accuracyThresholds = \<lparr> perfect = 0, excellent = 1, good = 2, ok = 4, miss = 8 \<rparr>,
       playerHp = 250,
       variableConfig = Some \<lparr> enabled = True, vcount = 2, valueRange = \<lparr> rmin = 2, rmax = 10 \<rparr> \<rparr> \<rparr>"

text \<open>
  \<open>PlayerState\<close> and \<open>GameState\<close>, field by field. The field \<open>id\<close> is \<open>playerId\<close>,
  \<open>name\<close> is \<open>playerName\<close> and \<open>round\<close> is \<open>roundNumber\<close> here. A variable is a pair of its symbol and its value;
  \<open>variableValues\<close> (the object \<open>{x: 4, y: 7}\<close>) is the list of its entries in
  insertion order.
\<close>

record PlayerState =
  playerId :: string
  playerName :: string
  hp :: int
  maxHp :: int
  cards :: "int list"
  variables :: "(char \<times> int) list"
  expression :: string
  submitted :: bool
  result :: "real option"

datatype Status = playing | revealing | waiting_next | finished

record GameState =
  roomCode :: string
  difficulty :: Difficulty
  target :: int
  variableValues :: "(char \<times> int) list"
  sharedCards :: "int list"
  sharedVariables :: "(char \<times> int) list"
  player1 :: PlayerState
  player2 :: PlayerState
  roundNumber :: nat
  status :: Status

type_synonym Games = "string \<rightharpoonup> GameState"

subsection \<open>evaluateExpression\<close>

text \<open>
  \<open>String.prototype.trim\<close> removes white space at both ends; the test
  \<open>expression.trim() === ''\<close> holds when every character is white space.
\<close>

definition isSpace :: "char \<Rightarrow> bool" where
  "isSpace c = (c = CHR '' '' \<or> c = CHR 0x09 \<or> c = CHR 0x0A \<or> c = CHR 0x0B
                \<or> c = CHR 0x0C \<or> c = CHR 0x0D)"

definition isDigit :: "char \<Rightarrow> bool" where
  "isDigit c = (c \<in> set ''0123456789'')"

definition isXY :: "char \<Rightarrow> bool" where
  "isXY c = (c = CHR ''x'' \<or> c = CHR ''y'')"

text \<open>
  \<open>expr.replace(/(P)(Q)/g, '$1*$2')\<close> for two one-character classes \<open>P\<close> and \<open>Q\<close>:
  a star goes between every match, and the scan resumes after the match.
\<close>

fun insertStar :: "(char \<Rightarrow> bool) \<Rightarrow> (char \<Rightarrow> bool) \<Rightarrow> string \<Rightarrow> string" where
  "insertStar P Q (c # d # rest) =
     (if P c \<and> Q d then c # CHR ''*'' # d # insertStar P Q rest
      else c # insertStar P Q (d # rest))"
| "insertStar P Q cs = cs"

text \<open>Decimal rendering of an integer, as a template literal renders a number.\<close>

fun digitsOf :: "nat \<Rightarrow> nat \<Rightarrow> string" where
  "digitsOf 0 n = []"
| "digitsOf (Suc fuel) n =
     (if n < 10 then [char_of (48 + n)]
      else digitsOf fuel (n div 10) @ [char_of (48 + n mod 10)])"

definition toString :: "int \<Rightarrow> string" where
  "toString i = (if i < 0 then CHR ''-'' # digitsOf (Suc (nat (- i))) (nat (- i))
                 else digitsOf (Suc (nat i)) (nat i))"

text \<open>\<open>expr.replace(new RegExp(symbol, 'g'), rep)\<close> for a one-letter symbol.\<close>

definition replaceSymbol :: "char \<Rightarrow> string \<Rightarrow> string \<Rightarrow> string" where
  "replaceSymbol symbol rep s = concat (map (\<lambda>c. if c = symbol then rep else [c]) s)"

text \<open>
  The built-in \<open>eval\<close> is called directly, so the submitted text runs in the scope of
  \<open>evaluateExpression\<close>: it sees the module's map \<open>games\<close> and the parameter
  \<open>variableValues\<close>, which is the very object that the game holds, and it may change
  them. \<open>eval\<close> is therefore a parameter \<open>ev\<close> that takes the text, the room code of the
  game whose \<open>variableValues\<close> object is in scope, and the games, and returns the value
  together with the games as the text leaves them. The value is \<open>None\<close> where \<open>eval\<close>
  throws or yields something that is not a finite number, which is exactly where
  \<open>evaluateExpression\<close> returns \<open>null\<close>. The text is taken to change the stored game and
  player objects in place (not to put other objects in their place) and to leave the
  configuration table and the functions of the module as they are.
\<close>

type_synonym Eval = "string \<Rightarrow> string \<Rightarrow> Games \<Rightarrow> real option \<times> Games"

text \<open>
  \<open>varVals\<close> is the content of the object \<open>variableValues\<close> at the call, and \<open>rc\<close> says
  whose object it is.
\<close>

definition evaluateExpression ::
  "Eval \<Rightarrow> string \<Rightarrow> (char \<times> int) list \<Rightarrow> string \<Rightarrow> Games \<Rightarrow> real option \<times> Games" where
  "evaluateExpression ev expr0 varVals rc games =
     (if expr0 = [] \<or> list_all isSpace expr0 then (None, games)
      else
        let expr1 = insertStar isDigit isXY expr0;
            expr2 = insertStar (\<lambda>c. c = CHR '')'') isXY expr1;
            expr3 = insertStar isXY (\<lambda>c. c = CHR ''('') expr2;
            expr4 = insertStar isXY isDigit expr3;
            expr5 = fold (\<lambda>(symbol, v) e.
                      replaceSymbol symbol (''('' @ toString v @ '')'') e) varVals expr4
        in ev expr5 rc games)"

subsection \<open>calculateDamage\<close>

record Damage =
  damage :: int
  damageType :: string
  isMiss :: bool
  difference :: "real option"

definition calculateDamage :: "real option \<Rightarrow> int \<Rightarrow> Difficulty \<Rightarrow> Damage" where
  "calculateDamage res tgt diffic =
     (case res of
        None \<Rightarrow> \<lparr> damage = 0, damageType = ''miss'', isMiss = True, difference = None \<rparr>
      | Some r \<Rightarrow>
         let thresholds = accuracyThresholds (DIFFICULTY_CONFIG diffic);
             d = \<bar>r - of_int tgt\<bar>;
             (baseDamage, ty) =
               (if d = perfect thresholds then (50, ''perfect'')
                else if d \<le> excellent thresholds then (40, ''excellent'')
                else if d \<le> good thresholds then (30, ''good'')
                else if d \<le> ok thresholds then (20, ''ok'')
                else if d < miss thresholds then (10, ''close'')
                else (0, ''miss''))
         in \<lparr> damage = baseDamage, damageType = ty, isMiss = (ty = ''miss''),
              difference = Some d \<rparr>)"

subsection \<open>submitPlayerExpression, checkBothPlayersReady, skipPlayerTurn\<close>

datatype SubmitResult = Success | Failure string

text \<open>
  The functions mutate the game object held by the module-level map \<open>games\<close>; here each
  takes the map and returns it updated, next to its return value. The error messages
  are written without their accents.
\<close>

text \<open>
  The two writes \<open>player.expression = expression\<close> and \<open>player.submitted = true\<close>, which
  come before the evaluation.
\<close>

definition markSubmitted :: "bool \<Rightarrow> string \<Rightarrow> GameState \<Rightarrow> GameState" where
  "markSubmitted isPlayer1 e game =
     (if isPlayer1
      then game \<lparr> player1 := (player1 game) \<lparr> expression := e, submitted := True \<rparr> \<rparr>
      else game \<lparr> player2 := (player2 game) \<lparr> expression := e, submitted := True \<rparr> \<rparr>)"

text \<open>
  The write \<open>player.result = ...\<close>, which comes after the evaluation: it goes to the
  player object chosen at the start, in the state that the evaluation has left. If the
  evaluated text has removed the game from the map, the write is not visible in it.
\<close>

definition storeResult :: "bool \<Rightarrow> real option \<Rightarrow> string \<Rightarrow> Games \<Rightarrow> Games" where
  "storeResult isPlayer1 r rc games =
     (case games rc of
        None \<Rightarrow> games
      | Some g \<Rightarrow>
          games(rc \<mapsto> (if isPlayer1 then g \<lparr> player1 := (player1 g) \<lparr> result := r \<rparr> \<rparr>
                         else g \<lparr> player2 := (player2 g) \<lparr> result := r \<rparr> \<rparr>)))"

definition submitPlayerExpression ::
  "Eval \<Rightarrow> string \<Rightarrow> string \<Rightarrow> string \<Rightarrow> Games \<Rightarrow> SubmitResult \<times> Games" where
  "submitPlayerExpression ev rc pid expr games =
     (case games rc of
        None \<Rightarrow> (Failure ''Juego no encontrado'', games)
      | Some game \<Rightarrow>
         if status game \<noteq> playing then (Failure ''No es momento de enviar expresiones'', games)
         else
           let isPlayer1 = (playerId (player1 game) = pid);
               player = (if isPlayer1 then player1 game else player2 game)
           in if submitted player then (Failure ''Ya enviaste tu expresion'', games)
              else
                let games1 = games(rc \<mapsto> markSubmitted isPlayer1 expr game);
                    evaluated = evaluateExpression ev expr (variableValues game) rc games1
                in (Success, storeResult isPlayer1 (fst evaluated) rc (snd evaluated)))"

definition checkBothPlayersReady :: "string \<Rightarrow> Games \<Rightarrow> bool" where
  "checkBothPlayersReady rc games =
     (case games rc of None \<Rightarrow> False
      | Some game \<Rightarrow> submitted (player1 game) \<and> submitted (player2 game))"

definition skipPlayerTurn ::
  "Eval \<Rightarrow> string \<Rightarrow> string \<Rightarrow> Games \<Rightarrow> SubmitResult \<times> Games" where
  "skipPlayerTurn ev rc pid games = submitPlayerExpression ev rc pid [] games"

subsection \<open>resolveRound\<close>

record PlayerResult =
  prName :: string
  prExpression :: string
  prResult :: "real option"
  prDifference :: "real option"
  prDamageType :: string
  damageTaken :: int
  currentHp :: int

record FinalStats =
  fsPlayer1 :: "string \<times> int"
  fsPlayer2 :: "string \<times> int"
  totalRounds :: nat

record RoundResult =
  rrRound :: nat
  rrTarget :: int
  rrPlayer1 :: PlayerResult
  rrPlayer2 :: PlayerResult
  roundWinner :: string
  gameOver :: bool
  winner :: "string option"
  finalStats :: "FinalStats option"

text \<open>
  A distance is \<open>Some d\<close>, or \<open>None\<close> for \<open>Infinity\<close>; \<open>diffLess\<close> is \<open><\<close> on them:
  nothing is below itself, and only a finite distance is below \<open>Infinity\<close>.
\<close>

fun diffLess :: "real option \<Rightarrow> real option \<Rightarrow> bool" where
  "diffLess (Some a) (Some b) = (a < b)"
| "diffLess (Some a) None = True"
| "diffLess None b = False"

text \<open>The locals \<open>p1Damage\<close>, \<open>p2Damage\<close>, \<open>p1Diff\<close> and \<open>p2Diff\<close> of \<open>resolveRound\<close>.\<close>

definition p1Damage :: "GameState \<Rightarrow> Damage" where
  "p1Damage game = calculateDamage (result (player1 game)) (target game) (difficulty game)"

definition p2Damage :: "GameState \<Rightarrow> Damage" where
  "p2Damage game = calculateDamage (result (player2 game)) (target game) (difficulty game)"

definition p1Diff :: "GameState \<Rightarrow> real option" where
  "p1Diff game = map_option (\<lambda>r. \<bar>r - of_int (target game)\<bar>) (result (player1 game))"

definition p2Diff :: "GameState \<Rightarrow> real option" where
  "p2Diff game = map_option (\<lambda>r. \<bar>r - of_int (target game)\<bar>) (result (player2 game))"

text \<open>
  The branch that sets \<open>winner\<close>, \<open>p1DamageTaken\<close> and \<open>p2DamageTaken\<close>, in this order.
\<close>

definition determineWinner :: "GameState \<Rightarrow> string \<times> int \<times> int" where
  "determineWinner game =
     (if isMiss (p1Damage game) \<and> isMiss (p2Damage game) then (''draw_miss'', 0, 0)
      else if diffLess (p1Diff game) (p2Diff game)
        then (playerName (player1 game), 0, damage (p1Damage game))
      else if diffLess (p2Diff game) (p1Diff game)
        then (playerName (player2 game), damage (p2Damage game), 0)
      else (''draw'', \<lfloor>of_int (damage (p2Damage game)) * (0.5::real)\<rfloor>,
                      \<lfloor>of_int (damage (p1Damage game)) * (0.5::real)\<rfloor>))"

text \<open>The game-over check on the two health values after damage.\<close>

definition checkGameOver :: "GameState \<Rightarrow> int \<Rightarrow> int \<Rightarrow> bool \<times> string option" where
  "checkGameOver game hp1 hp2 =
     (if hp1 \<le> 0 \<and> hp2 \<le> 0 then (True, Some ''draw'')
      else if hp1 \<le> 0 then (True, Some (playerName (player2 game)))
      else if hp2 \<le> 0 then (True, Some (playerName (player1 game)))
      else (False, None))"

definition orSinRespuesta :: "string \<Rightarrow> string" where
  "orSinRespuesta e = (if e = [] then ''(sin respuesta)'' else e)"

definition resetSubmission :: "PlayerState \<Rightarrow> PlayerState" where
  "resetSubmission p = p \<lparr> expression := [], submitted := False, result := None \<rparr>"

text \<open>
  The locals \<open>p1DamageTaken\<close> and \<open>p2DamageTaken\<close>, the two health values after
  \<open>Math.max(0, hp - damageTaken)\<close>, and the pair \<open>(gameOver, gameWinner)\<close>.
\<close>

definition p1DamageTaken :: "GameState \<Rightarrow> int" where
  "p1DamageTaken game = fst (snd (determineWinner game))"

definition p2DamageTaken :: "GameState \<Rightarrow> int" where
  "p2DamageTaken game = snd (snd (determineWinner game))"

definition hp1After :: "GameState \<Rightarrow> int" where
  "hp1After game = max 0 (hp (player1 game) - p1DamageTaken game)"

definition hp2After :: "GameState \<Rightarrow> int" where
  "hp2After game = max 0 (hp (player2 game) - p2DamageTaken game)"

definition over :: "GameState \<Rightarrow> bool \<times> string option" where
  "over game = checkGameOver game (hp1After game) (hp2After game)"

text \<open>The object \<open>result\<close> that \<open>resolveRound\<close> returns.\<close>

definition roundResult :: "GameState \<Rightarrow> RoundResult" where
  "roundResult game =
     \<lparr> rrRound = roundNumber game, rrTarget = target game,
       rrPlayer1 = \<lparr> prName = playerName (player1 game),
                     prExpression = orSinRespuesta (expression (player1 game)),
                     prResult = result (player1 game),
                     prDifference = p1Diff game,
                     prDamageType = damageType (p1Damage game),
                     damageTaken = p1DamageTaken game, currentHp = hp1After game \<rparr>,
       rrPlayer2 = \<lparr> prName = playerName (player2 game),
                     prExpression = orSinRespuesta (expression (player2 game)),
                     prResult = result (player2 game),
                     prDifference = p2Diff game,
                     prDamageType = damageType (p2Damage game),
                     damageTaken = p2DamageTaken game, currentHp = hp2After game \<rparr>,
       roundWinner = fst (determineWinner game),
       gameOver = fst (over game), winner = snd (over game),
       finalStats =
         (if fst (over game)
          then Some \<lparr> fsPlayer1 = (playerName (player1 game), hp1After game),
                      fsPlayer2 = (playerName (player2 game), hp2After game),
                      totalRounds = roundNumber game \<rparr>
          else None) \<rparr>"

text \<open>
  The game object after the call: the damage is applied, and unless the game is over the
  submission fields of both players are reset. (The status \<open>revealing\<close>, set on entry, is
  overwritten before the function returns.)
\<close>

definition resolvedGame :: "GameState \<Rightarrow> GameState" where
  "resolvedGame game =
     (if \<not> fst (over game)
      then game \<lparr> player1 := resetSubmission ((player1 game) \<lparr> hp := hp1After game \<rparr>),
                  player2 := resetSubmission ((player2 game) \<lparr> hp := hp2After game \<rparr>),
                  status := waiting_next \<rparr>
      else game \<lparr> player1 := (player1 game) \<lparr> hp := hp1After game \<rparr>,
                  player2 := (player2 game) \<lparr> hp := hp2After game \<rparr>,
                  status := finished \<rparr>)"

definition resolveRound :: "string \<Rightarrow> Games \<Rightarrow> RoundResult option \<times> Games" where
  "resolveRound rc games =
     (case games rc of
        None \<Rightarrow> (None, games)
      | Some game \<Rightarrow> (Some (roundResult game), games(rc \<mapsto> resolvedGame game)))"

section \<open>Arithmetic strings\<close>

text \<open>
  The strings that \<open>findSolution\<close> emits and that players submit are handed to the built-in
  \<open>eval\<close>. \<open>evalArith\<close> is its restriction to the game's grammar: decimal integers, the
  binary operators \<open>+ - * /\<close> with their standard precedence and left associativity,
  parentheses and white space. Anything else (and a division by zero, where \<open>eval\<close> yields
  an infinity or NaN) is \<open>None\<close>.
\<close>

datatype token = TNum nat | TOp char | TLParen | TRParen

definition digitVal :: "char \<Rightarrow> nat" where
  "digitVal c = of_char c - 48"

definition isOp :: "char \<Rightarrow> bool" where
  "isOp c = (c \<in> set ''+-*/'')"

fun flush :: "nat option \<Rightarrow> token list" where
  "flush None = []"
| "flush (Some n) = [TNum n]"

fun tokenize :: "nat option \<Rightarrow> string \<Rightarrow> token list option" where
  "tokenize acc [] = Some (flush acc)"
| "tokenize acc (c # cs) =
     (if isDigit c
        then tokenize (Some (10 * (case acc of None \<Rightarrow> 0 | Some n \<Rightarrow> n) + digitVal c)) cs
      else if isSpace c then map_option (\<lambda>ts. flush acc @ ts) (tokenize None cs)
      else if isOp c then map_option (\<lambda>ts. flush acc @ TOp c # ts) (tokenize None cs)
      else if c = CHR ''('' then map_option (\<lambda>ts. flush acc @ TLParen # ts) (tokenize None cs)
      else if c = CHR '')'' then map_option (\<lambda>ts. flush acc @ TRParen # ts) (tokenize None cs)
      else None)"

definition prec :: "char \<Rightarrow> nat" where
  "prec c = (if c = CHR ''*'' \<or> c = CHR ''/'' then 2 else 1)"

text \<open>The value stack holds the right operand on top.\<close>

fun applyOp :: "char \<Rightarrow> real list \<Rightarrow> real list option" where
  "applyOp c (b # a # rest) =
     (if c = CHR ''+'' then Some ((a + b) # rest)
      else if c = CHR ''-'' then Some ((a - b) # rest)
      else if c = CHR ''*'' then Some ((a * b) # rest)
      else if b = 0 then None
      else Some ((a / b) # rest))"
| "applyOp c vals = None"

text \<open>
  Apply the pending operators of precedence at least \<open>p\<close>, down to the nearest open
  parenthesis (kept on the operator stack as the character \<open>(\<close>).
\<close>

fun reduce :: "nat \<Rightarrow> real list \<Rightarrow> char list \<Rightarrow> (real list \<times> char list) option" where
  "reduce p vals [] = Some (vals, [])"
| "reduce p vals (c # ops) =
     (if c = CHR ''('' then Some (vals, c # ops)
      else if p \<le> prec c
        then (case applyOp c vals of None \<Rightarrow> None | Some vals' \<Rightarrow> reduce p vals' ops)
      else Some (vals, c # ops))"

text \<open>
  One pass over the tokens with a value stack and an operator stack; \<open>ex\<close> tells whether
  an operand is expected next, so that only well-formed expressions are accepted.
\<close>

fun run :: "bool \<Rightarrow> real list \<Rightarrow> char list \<Rightarrow> token list \<Rightarrow> real option" where
  "run ex vals ops [] =
     (if ex then None
      else (case reduce 0 vals ops of
              Some ([v], []) \<Rightarrow> Some v
            | _ \<Rightarrow> None))"
| "run ex vals ops (TNum n # ts) = (if ex then run False (of_nat n # vals) ops ts else None)"
| "run ex vals ops (TOp c # ts) =
     (if ex then None
      else (case reduce (prec c) vals ops of
              None \<Rightarrow> None
            | Some (vals', ops') \<Rightarrow> run True vals' (c # ops') ts))"
| "run ex vals ops (TLParen # ts) = (if ex then run True vals (CHR ''('' # ops) ts else None)"
| "run ex vals ops (TRParen # ts) =
     (if ex then None
      else (case reduce 0 vals ops of
              Some (vals', c # ops') \<Rightarrow> (if c = CHR ''('' then run False vals' ops' ts else None)
            | _ \<Rightarrow> None))"

definition evalArith :: "string \<Rightarrow> real option" where
  "evalArith s = (case tokenize None s of None \<Rightarrow> None | Some ts \<Rightarrow> run True [] [] ts)"

section \<open>Expression search (gameLogic.js)\<close>

subsection \<open>The pair loop shared by both searches\<close>

text \<open>
  \<open>currentNumbers.filter((_, idx) => idx !== i && idx !== j)\<close>: the entries at the other
  indices, in their order.
\<close>

definition remaining :: "nat \<Rightarrow> nat \<Rightarrow> 'a list \<Rightarrow> 'a list" where
  "remaining i j xs = map snd (filter (\<lambda>p. fst p \<noteq> i \<and> fst p \<noteq> j) (enumerate 0 xs))"

text \<open>
  The two nested loops over \<open>i\<close> and \<open>j\<close> (skipping \<open>i = j\<close>) and the loop over the
  combinations \<open>f a b\<close> of the pair: the argument lists of the recursive calls
  \<open>explore([res, ...remaining])\<close>, in the order in which the code makes them.
\<close>

definition pairSteps :: "('a \<Rightarrow> 'a \<Rightarrow> 'a list) \<Rightarrow> 'a list \<Rightarrow> 'a list list" where
  "pairSteps f xs =
     concat (map (\<lambda>i. concat (map (\<lambda>j.
        if i = j then []
        else map (\<lambda>res. res # remaining i j xs) (f (xs ! i) (xs ! j)))
       [0..<length xs])) [0..<length xs])"

lemma length_remaining:
  assumes "i < length xs" "j < length xs" "i \<noteq> j"
  shows "length (remaining i j xs) = length xs - 2"
proof -
  have "{k. k < length (enumerate 0 xs) \<and> (fst (enumerate 0 xs ! k) \<noteq> i \<and> fst (enumerate 0 xs ! k) \<noteq> j)}
        = {..<length xs} - {i, j}"
    by (auto simp: nth_enumerate_eq)
  moreover have "card ({..<length xs} - {i, j}) = length xs - 2"
    using assms by (simp add: card_Diff_subset)
  ultimately show ?thesis
    by (simp add: remaining_def length_filter_conv_card)
qed

lemma pairSteps_length:
  assumes "ys \<in> set (pairSteps f xs)"
  shows "Suc (length ys) = length xs"
proof -
  from assms obtain i j res where ij: "i < length xs" "j < length xs" "i \<noteq> j"
    and ys: "ys = res # remaining i j xs"
    by (auto simp: pairSteps_def split: if_splits)
  have "2 \<le> length xs" using ij by linarith
  then show ?thesis using length_remaining[OF ij] ys by simp
qed

text \<open>
  What a search visits: \<open>reach f xs x\<close> holds when \<open>x\<close> is an entry of \<open>xs\<close> or of a list
  that the recursive calls are made on. The recursion stops at a list of length one.
\<close>

inductive reach :: "('a \<Rightarrow> 'a \<Rightarrow> 'a list) \<Rightarrow> 'a list \<Rightarrow> 'a \<Rightarrow> bool" for f where
  here: "x \<in> set xs \<Longrightarrow> reach f xs x"
| step: "length xs \<noteq> 1 \<Longrightarrow> ys \<in> set (pairSteps f xs) \<Longrightarrow> reach f ys x \<Longrightarrow> reach f xs x"

text \<open>\<open>a % b\<close> on integers: the remainder has the sign of the dividend.\<close>

definition jsRem :: "int \<Rightarrow> int \<Rightarrow> int" where
  "jsRem a b = sgn a * (\<bar>a\<bar> mod \<bar>b\<bar>)"

subsection \<open>generateTargetByDifficulty\<close>

text \<open>
  The difficulty is the string the caller passes; \<open>difficulty !== 'easy'\<close> opens
  multiplication and division. A division is taken only when it is exact, so every
  number of the search is an integer and \<open>a / b\<close> is \<open>a div b\<close>.
\<close>

definition nextSteps :: "string \<Rightarrow> int \<Rightarrow> int \<Rightarrow> int list" where
  "nextSteps diffic a b =
     [a + b, a - b] @
     (if diffic \<noteq> ''easy''
      then [a * b] @ (if b \<noteq> 0 \<and> jsRem a b = 0 then [a div b] else [])
      else [])"

text \<open>
  \<open>possibleResults\<close> is a \<open>Set\<close>, which iterates in insertion order: a list without
  repetition, appended to.
\<close>

definition addResult :: "int \<Rightarrow> int list \<Rightarrow> int list" where
  "addResult num acc = (if \<bar>num\<bar> \<in> set acc then acc else acc @ [\<bar>num\<bar>])"

function explore :: "string \<Rightarrow> int list \<Rightarrow> int list \<Rightarrow> int list" where
  "explore diffic currentNumbers acc =
     (let acc1 = fold addResult currentNumbers acc
      in if length currentNumbers = 1 then acc1
         else fold (\<lambda>next a. explore diffic next a)
                (pairSteps (nextSteps diffic) currentNumbers) acc1)"
  by pat_completeness auto
termination
proof (relation "measure (\<lambda>(d, ns, a). length ns)")
  show "wf (measure (\<lambda>(d, ns, a). length ns))" by simp
next
  fix diffic :: string and currentNumbers :: "int list" and acc x xa :: "int list" and xb :: "int list"
  assume "xa \<in> set (pairSteps (nextSteps diffic) currentNumbers)"
  then have "Suc (length xa) = length currentNumbers" by (rule pairSteps_length)
  then show "((diffic, xa, xb), diffic, currentNumbers, acc) \<in> measure (\<lambda>(d, ns, a). length ns)"
    by simp
qed

declare explore.simps [simp del]

definition possibleResults :: "string \<Rightarrow> int list \<Rightarrow> int list" where
  "possibleResults diffic allNumbers = explore diffic allNumbers []"

text \<open>
  \<open>DIFFICULTY_CONFIG\<close> of gameLogic.js, with the fields that generation, scoring and the
  streak system read. The name, emoji and colour of a profile or of a streak tier are
  presentation data and are left out. An unknown key falls back to the medium profile
  (\<open>DIFFICULTY_CONFIG[difficulty] || DIFFICULTY_CONFIG.medium\<close>).
\<close>

record StreakTier =
  minStreak :: int
  bonus :: int
  intensity :: int

record GameLogicConfig =
  glCardRange :: MinMax
  glCardCount :: nat
  glTargetRange :: MinMax
  glAccuracyThresholds :: AccuracyThresholds
  glPlayerHp :: int
  streakConfig :: "StreakTier list"

definition DIFFICULTY_CONFIG_gameLogic :: "string \<Rightarrow> GameLogicConfig" where
  "DIFFICULTY_CONFIG_gameLogic diffic =
    (if diffic = ''easy'' then
      \<lparr> glCardRange = \<lparr> rmin = 1, rmax = 9 \<rparr>, glCardCount = 4,
        glTargetRange = \<lparr> rmin = 10, rmax = 30 \<rparr>,
        glAccuracyThresholds = \<lparr> perfect = 0, excellent = 3, good = 6, ok = 10, miss = 15 \<rparr>,
        glPlayerHp = 150,
        streakConfig =
          [\<lparr> minStreak = 0, bonus = 0, intensity = 0 \<rparr>,
           \<lparr> minStreak = 3, bonus = 5, intensity = 1 \<rparr>,
           \<lparr> minStreak = 4, bonus = 10, intensity = 2 \<rparr>,
           \<lparr> minStreak = 5, bonus = 15, intensity = 3 \<rparr>,
           \<lparr> minStreak = 6, bonus = 25, intensity = 4 \<rparr>] \<rparr>
     else if diffic = ''hard'' then
      \<lparr> glCardRange = \<lparr> rmin = 2, rmax = 20 \<rparr>, glCardCount = 3,
        glTargetRange = \<lparr> rmin = 80, rmax = 200 \<rparr>,
        glAccuracyThresholds = \<lparr> perfect = 0, excellent = 1, good = 2, ok = 4, miss = 8 \<rparr>,
        glPlayerHp = 250,
        streakConfig =
          [\<lparr> minStreak = 0, bonus = 0, intensity = 0 \<rparr>,
           \<lparr> minStreak = 2, bonus = 15, intensity = 1 \<rparr>,
           \<lparr> minStreak = 3, bonus = 30, intensity = 2 \<rparr>,
           \<lparr> minStreak = 4, bonus = 50, intensity = 3 \<rparr>,
           \<lparr> minStreak = 5, bonus = 80, intensity = 4 \<rparr>] \<rparr>
     else
      \<lparr> glCardRange = \<lparr> rmin = 2, rmax = 10 \<rparr>, glCardCount = 3,
        glTargetRange = \<lparr> rmin = 15, rmax = 50 \<rparr>,
        glAccuracyThresholds = \<lparr> perfect = 0, excellent = 2, good = 4, ok = 7, miss = 12 \<rparr>,
        glPlayerHp = 200,
        streakConfig =
          [\<lparr> minStreak = 0, bonus = 0, intensity = 0 \<rparr>,
           \<lparr> minStreak = 2, bonus = 8, intensity = 1 \<rparr>,
           \<lparr> minStreak = 3, bonus = 15, intensity = 2 \<rparr>,
           \<lparr> minStreak = 4, bonus = 25, intensity = 3 \<rparr>,
           \<lparr> minStreak = 5, bonus = 40, intensity = 4 \<rparr>] \<rparr>)"

text \<open>
  The comparator of the fallback sort: the distance of a result to the range.
\<close>

definition rangeDist :: "int \<Rightarrow> int \<Rightarrow> int \<Rightarrow> int" where
  "rangeDist lo hi a = (if a < lo then lo - a else if a > hi then a - hi else 0)"

text \<open>
  \<open>u\<close> is the value of \<open>Math.random()\<close> that picks among the valid targets; it lies in
  \<open>[0, 1)\<close>. \<open>Array.prototype.sort\<close> is stable, as \<open>sort_key\<close> is.
\<close>

definition generateTargetByDifficulty ::
  "string \<Rightarrow> int list \<Rightarrow> (char \<times> int) list \<Rightarrow> real \<Rightarrow> int" where
  "generateTargetByDifficulty diffic cs varVals u =
     (let lo = rmin (glTargetRange (DIFFICULTY_CONFIG_gameLogic diffic));
          hi = rmax (glTargetRange (DIFFICULTY_CONFIG_gameLogic diffic));
          allNumbers = cs @ map snd varVals;
          results = possibleResults diffic allNumbers;
          validTargets = filter (\<lambda>v. lo \<le> v \<and> v \<le> hi) results
      in if length validTargets > 0
         then validTargets ! nat \<lfloor>u * of_nat (length validTargets)\<rfloor>
         else
           let allResults = filter (\<lambda>v. v > 0) results
           in if length allResults > 0
              then max lo (min hi (hd (sort_key (rangeDist lo hi) allResults)))
              else max lo (min hi (fold (\<lambda>b a. a + b) allNumbers 0)))"

subsection \<open>findSolution\<close>

text \<open>An item of the search: \<open>{ value, expr, precedence }\<close>; \<open>value\<close> is \<open>val\<close> here.\<close>

record Item =
  val :: int
  expr :: string
  precedence :: nat

definition wrap :: "Item \<Rightarrow> nat \<Rightarrow> string" where
  "wrap item myPrec =
     (if precedence item \<noteq> 0 \<and> precedence item < myPrec then ''('' @ expr item @ '')''
      else expr item)"

text \<open>The list \<open>ops\<close> as it stands after \<open>ops.length = 0\<close>.\<close>

definition itemOps :: "string \<Rightarrow> Item \<Rightarrow> Item \<Rightarrow> Item list" where
  "itemOps diffic a b =
     [\<lparr> val = val a + val b, expr = expr a @ '' + '' @ expr b, precedence = 1 \<rparr>,
      \<lparr> val = val a - val b, expr = expr a @ '' - '' @ wrap b 2, precedence = 1 \<rparr>] @
     (if diffic \<noteq> ''easy''
      then [\<lparr> val = val a * val b, expr = wrap a 2 @ '' * '' @ wrap b 2, precedence = 2 \<rparr>] @
           (if val b \<noteq> 0 \<and> jsRem (val a) (val b) = 0
            then [\<lparr> val = val a div val b, expr = wrap a 2 @ '' / '' @ wrap b 2,
                    precedence = 2 \<rparr>]
            else [])
      else [])"

text \<open>
  The loops stop at the first recursive call that has set \<open>result\<close>: the first
  \<open>Some\<close> in the order of the calls.
\<close>

fun firstSome :: "('a \<Rightarrow> 'b option) \<Rightarrow> 'a list \<Rightarrow> 'b option" where
  "firstSome f [] = None"
| "firstSome f (x # xs) = (case f x of Some r \<Rightarrow> Some r | None \<Rightarrow> firstSome f xs)"

lemma firstSome_cong [fundef_cong]:
  "xs = ys \<Longrightarrow> (\<And>x. x \<in> set ys \<Longrightarrow> f x = g x) \<Longrightarrow> firstSome f xs = firstSome g ys"
  by (induction ys arbitrary: xs) (auto split: option.splits)

definition hits :: "int \<Rightarrow> Item \<Rightarrow> bool" where
  "hits tgt item = (\<bar>of_int (val item) - of_int tgt\<bar> < (0.0001 :: real))"

function exploreItems :: "int \<Rightarrow> string \<Rightarrow> Item list \<Rightarrow> string option" where
  "exploreItems tgt diffic currentItems =
     (case find (hits tgt) currentItems of
        Some item \<Rightarrow> Some (expr item)
      | None \<Rightarrow>
          if length currentItems = 1 then None
          else firstSome (\<lambda>next. exploreItems tgt diffic next)
                 (pairSteps (itemOps diffic) currentItems))"
  by pat_completeness auto
termination
proof (relation "measure (\<lambda>(t, d, items). length items)")
  show "wf (measure (\<lambda>(t, d, items). length items))" by simp
next
  fix tgt :: int and diffic :: string and currentItems x :: "Item list"
  assume "x \<in> set (pairSteps (itemOps diffic) currentItems)"
  then have "Suc (length x) = length currentItems" by (rule pairSteps_length)
  then show "((tgt, diffic, x), tgt, diffic, currentItems) \<in> measure (\<lambda>(t, d, items). length items)"
    by simp
qed

declare exploreItems.simps [simp del]

text \<open>
  The result is \<open>None\<close> where the code returns its not-found sentinel (the string
  starting \<open>Sin soluci\<close>): an emitted expression is never empty, so \<open>result || sentinel\<close>
  replaces exactly the \<open>null\<close>.
\<close>

definition findSolution :: "int \<Rightarrow> int list \<Rightarrow> string \<Rightarrow> (char \<times> int) list \<Rightarrow> string option" where
  "findSolution tgt cs diffic varVals =
     exploreItems tgt diffic
       (map (\<lambda>c. \<lparr> val = c, expr = toString c, precedence = 3 \<rparr>) cs @
        map (\<lambda>(symbol, v). \<lparr> val = v, expr = [symbol], precedence = 3 \<rparr>) varVals)"

subsection \<open>evaluateExpressionWithVariables\<close>

text \<open>
  \<open>s.replace(new RegExp(`(P)${symbol}`, 'g'), `$1*${value}`)\<close>: a character of class
  \<open>P\<close> followed by the symbol keeps the character and gets a star and the value.
  The three replacements are made for each variable in turn, and the outcome goes to
  \<open>eval\<close>. Here the function is applied only to the strings that \<open>findSolution\<close> emits,
  which are arithmetic and change nothing, so the parameter \<open>ev\<close> gives the value alone
  (an infinite result, which this function would pass on, has no counterpart in \<open>real\<close>
  and is \<open>None\<close> too).
\<close>

fun replaceAfter :: "(char \<Rightarrow> bool) \<Rightarrow> char \<Rightarrow> string \<Rightarrow> string \<Rightarrow> string" where
  "replaceAfter P symbol rep (c # d # rest) =
     (if P c \<and> d = symbol then c # CHR ''*'' # rep @ replaceAfter P symbol rep rest
      else c # replaceAfter P symbol rep (d # rest))"
| "replaceAfter P symbol rep cs = cs"

definition evaluateExpressionWithVariables ::
  "(string \<Rightarrow> real option) \<Rightarrow> string \<Rightarrow> (char \<times> int) list \<Rightarrow> real option" where
  "evaluateExpressionWithVariables ev expr0 varVals =
     ev (fold (\<lambda>(symbol, v) e.
           replaceSymbol symbol (toString v)
             (replaceAfter (\<lambda>c. c = CHR '')'') symbol (toString v)
                (replaceAfter isDigit symbol (toString v) e)))
         varVals expr0)"

section \<open>Scoring and streaks (gameLogic.js)\<close>

subsection \<open>calculateNormalizedDamage\<close>

text \<open>
  The parameter object and the returned object; the labels and the breakdown list are
  display strings and are left out. The returned \<open>damage\<close> is \<open>finalDamage\<close> and
  \<open>miss\<close> is \<open>missed\<close> here.
\<close>

record AttackParams =
  cardsUsed :: nat
  operatorsUsed :: "string list"
  attackDifference :: real
  hasExactDivision :: bool

record NormalizedDamage =
  finalDamage :: int
  rawDamage :: int
  baseDamage :: int
  cardBonus :: int
  operatorBonus :: int
  divisionBonus :: int
  accuracyMultiplier :: real
  accuracyType :: string
  isMasterPlay :: bool
  missed :: bool

definition BASE_DAMAGE :: int where
  "BASE_DAMAGE = 20"

definition CARD_BONUSES :: "nat \<Rightarrow> int" where
  "CARD_BONUSES n = (if n = 2 then 0 else if n = 3 then 10 else if n = 4 then 25 else 0)"

text \<open>
  The chain that sets \<open>accuracyMultiplier\<close> and \<open>accuracyType\<close>; \<open>None\<close> is its last
  branch, which returns the miss object at once.
\<close>

definition accuracy :: "real \<Rightarrow> (real \<times> string) option" where
  "accuracy d =
     (if d = 0 then Some (1.0, ''perfect'')
      else if d \<le> 5 then Some (0.75, ''close'')
      else if d \<le> 10 then Some (0.5, ''far'')
      else None)"

definition calculateNormalizedDamage :: "AttackParams \<Rightarrow> NormalizedDamage" where
  "calculateNormalizedDamage ps =
     (let cBonus = CARD_BONUSES (cardsUsed ps);
          uniqueOperators = remdups (operatorsUsed ps);
          oBonus = int (length uniqueOperators) * 5;
          dBonus = (if hasExactDivision ps \<and> ''/'' \<in> set uniqueOperators then 10 else 0);
          raw = BASE_DAMAGE + cBonus + oBonus + dBonus;
          d = attackDifference ps
      in case accuracy d of
           None \<Rightarrow>
             \<lparr> finalDamage = 0, rawDamage = 0, baseDamage = BASE_DAMAGE, cardBonus = 0,
               operatorBonus = 0, divisionBonus = 0, accuracyMultiplier = 0,
               accuracyType = ''miss'', isMasterPlay = False, missed = True \<rparr>
         | Some (mult, ty) \<Rightarrow>
             \<lparr> finalDamage = \<lfloor>of_int raw * mult\<rfloor>, rawDamage = raw,
               baseDamage = BASE_DAMAGE, cardBonus = cBonus, operatorBonus = oBonus,
               divisionBonus = dBonus, accuracyMultiplier = mult, accuracyType = ty,
               isMasterPlay = (cardsUsed ps = 4 \<and> length uniqueOperators \<ge> 3 \<and> d = 0),
               missed = False \<rparr>)"

subsection \<open>getStreakTier and calculateStreakBonus\<close>








section \<open>Target generation of the match coordinator (server/gameManager.js)\<close>

text \<open>
  The random draws of one call of \<open>generateTarget\<close>: the order that the sort with a
  random comparator leaves the copy of the cards in, the values of \<open>Math.random()\<close>
  that choose each sign, and the one that chooses the factor of \<open>x\<close>.
\<close>

record Draws =
  shuffled :: "int list"
  signDraws :: "real list"
  factorDraw :: real

definition generateTarget :: "Difficulty \<Rightarrow> int list \<Rightarrow> (char \<times> int) list \<Rightarrow> Draws \<Rightarrow> int" where
  "generateTarget diffic cs varVals rnd =
     (let config = DIFFICULTY_CONFIG diffic;
          numCardsToUse = min 3 (length cs);
          t0 = fold (\<lambda>i t. t + shuffled rnd ! i * (if signDraws rnd ! i > 0.3 then 1 else - 1))
                 [0..<numCardsToUse] 0;
          t1 = (case map_of varVals CHR ''x'' of
                  None \<Rightarrow> t0
                | Some x \<Rightarrow> if x \<noteq> 0 then t0 + x * (if factorDraw rnd > 0.5 then 1 else 2)
                            else t0)
      in max (rmin (targetRange config)) (min (rmax (targetRange config)) \<bar>t1\<bar>))"

section \<open>Example states (server/tests/server.test.js)\<close>

text \<open>
  The state that the test ``Resolver ronda calcula ganador correctamente'' of
  server.test.js builds: an easy game between \<open>Player1\<close> and \<open>Player2\<close>, here with the
  cards \<open>2, 3, 5, 9\<close> and the target \<open>10\<close> (as \<open>2 + 3 + 5\<close>).
\<close>

definition testPlayer :: "string \<Rightarrow> string \<Rightarrow> PlayerState" where
  "testPlayer i n =
     \<lparr> playerId = i, playerName = n, hp = 150, maxHp = 150, cards = [2, 3, 5, 9],
       variables = [], expression = [], submitted = False, result = None \<rparr>"

definition testGame :: GameState where
  "testGame =
     \<lparr> roomCode = ''TEST4'', difficulty = easy, target = 10, variableValues = [],
       sharedCards = [2, 3, 5, 9], sharedVariables = [],
       player1 = testPlayer ''p1'' ''Player1'', player2 = testPlayer ''p2'' ''Player2'',
       roundNumber = 1, status = playing \<rparr>"

definition testGames :: Games where
  "testGames = Map.empty(''TEST4'' \<mapsto> testGame)"

text \<open>The same game once both players have submitted, with the given expressions and results.\<close>

definition submittedGame :: "string \<Rightarrow> real option \<Rightarrow> string \<Rightarrow> real option \<Rightarrow> GameState" where
  "submittedGame e1 r1 e2 r2 =
     testGame \<lparr> player1 := (player1 testGame) \<lparr> expression := e1, submitted := True, result := r1 \<rparr>,
                player2 := (player2 testGame) \<lparr> expression := e2, submitted := True, result := r2 \<rparr> \<rparr>"

text \<open>
  The test ``Game Over cuando HP llega a 0'' lowers a player's health by hand
  (\<open>game.player2.hp = 30\<close>) before the submissions.
\<close>

definition withHp :: "int \<Rightarrow> int \<Rightarrow> GameState \<Rightarrow> GameState" where
  "withHp h1 h2 game = game \<lparr> player1 := (player1 game) \<lparr> hp := h1 \<rparr>,
                              player2 := (player2 game) \<lparr> hp := h2 \<rparr> \<rparr>"

text \<open>
  An assignment \<open>variableValues.x = v\<close>: an existing entry keeps its place, a new one goes
  to the end.
\<close>

definition setVar :: "char \<Rightarrow> int \<Rightarrow> (char \<times> int) list \<Rightarrow> (char \<times> int) list" where
  "setVar k v xs =
     (if k \<in> fst ` set xs then map (\<lambda>p. if fst p = k then (k, v) else p) xs
      else xs @ [(k, v)])"

text \<open>
  What \<open>eval\<close> does on the texts of the examples. The first text runs
  \<open>Map.prototype.forEach\<close> on \<open>games\<close>, clears the \<open>submitted\<close> flag of every game's first
  player, and has the value 1 by the comma operator. The second assigns 9 to the
  property \<open>x\<close> of the \<open>variableValues\<close> object in scope and has the value 1. Any other
  text is read as an arithmetic string, which changes nothing; a text that names an
  unbound variable, as \<open>x+1\<close> does when no \<open>x\<close> was substituted, throws, and it is \<open>None\<close>
  for \<open>evalArith\<close> too.
\<close>

definition evalScript :: Eval where
  "evalScript code rc games =
     (if code = ''games.forEach(g => g.player1.submitted = false), 1''
      then (Some 1,
            map_option (\<lambda>g. g \<lparr> player1 := (player1 g) \<lparr> submitted := False \<rparr> \<rparr>) \<circ> games)
      else if code = ''variableValues.x = 9, 1''
      then (Some 1,
            case games rc of
              None \<Rightarrow> games
            | Some g \<Rightarrow> games(rc \<mapsto> g \<lparr> variableValues := setVar CHR ''x'' 9 (variableValues g) \<rparr>))
      else (evalArith code, games))"

section \<open>Properties of the match coordinator\<close>

subsection \<open>Auxiliary facts\<close>

lemma floor_half': "\<lfloor>real_of_int d / 2\<rfloor> = d div 2"
proof -
  have "real_of_int d / 2 = of_int d / of_int 2" by simp
  then show ?thesis by (simp only: floor_divide_of_int_eq)
qed

lemma floor_half: "\<lfloor>of_int d * (0.5::real)\<rfloor> = d div 2"
  using floor_half'[of d] by simp

lemma calculateDamage_None:
  "calculateDamage None t d = \<lparr> damage = 0, damageType = ''miss'', isMiss = True, difference = None \<rparr>"
  by (simp add: calculateDamage_def)

lemma isMiss_damage_zero: "isMiss (calculateDamage r t d) \<Longrightarrow> damage (calculateDamage r t d) = 0"
  by (cases r) (auto simp: calculateDamage_def Let_def split: if_splits)

lemma diffLess_tie: "\<not> diffLess a b \<Longrightarrow> \<not> diffLess b a \<Longrightarrow> a = b"
  apply (cases a; cases b) apply auto done

lemma submit_missing:
  "games rc = None \<Longrightarrow> submitPlayerExpression ev rc pid e games = (Failure ''Juego no encontrado'', games)"
  by (simp add: submitPlayerExpression_def)

lemma submit_not_playing:
  "games rc = Some game \<Longrightarrow> status game \<noteq> playing \<Longrightarrow>
   submitPlayerExpression ev rc pid e games = (Failure ''No es momento de enviar expresiones'', games)"
  by (simp add: submitPlayerExpression_def)

lemma submit_already:
  "games rc = Some game \<Longrightarrow> status game = playing \<Longrightarrow>
   submitted (if playerId (player1 game) = pid then player1 game else player2 game) \<Longrightarrow>
   submitPlayerExpression ev rc pid e games = (Failure ''Ya enviaste tu expresion'', games)"
  by (simp add: submitPlayerExpression_def Let_def)

lemma evaluate_empty: "evaluateExpression ev [] vv rc games = (None, games)"
  by (simp add: evaluateExpression_def)

lemma submit_ok:
  "games rc = Some game \<Longrightarrow> status game = playing \<Longrightarrow>
   \<not> submitted (if playerId (player1 game) = pid then player1 game else player2 game) \<Longrightarrow>
   submitPlayerExpression ev rc pid e games =
     (Success,
      storeResult (playerId (player1 game) = pid)
        (fst (evaluateExpression ev e (variableValues game) rc
               (games(rc \<mapsto> markSubmitted (playerId (player1 game) = pid) e game))))
        rc
        (snd (evaluateExpression ev e (variableValues game) rc
               (games(rc \<mapsto> markSubmitted (playerId (player1 game) = pid) e game)))))"
  by (simp add: submitPlayerExpression_def Let_def)

lemma resolveRound_missing: "games rc = None \<Longrightarrow> resolveRound rc games = (None, games)"
  by (simp add: resolveRound_def)

lemma resolveRound_Some:
  "games rc = Some game \<Longrightarrow>
   resolveRound rc games = (Some (roundResult game), games(rc \<mapsto> resolvedGame game))"
  by (simp add: resolveRound_def)

lemma determineWinner_both_miss:
  "isMiss (p1Damage game) \<Longrightarrow> isMiss (p2Damage game) \<Longrightarrow> determineWinner game = (''draw_miss'', 0, 0)"
  by (simp add: determineWinner_def)

lemma determineWinner_p1:
  "\<not> (isMiss (p1Damage game) \<and> isMiss (p2Damage game)) \<Longrightarrow> diffLess (p1Diff game) (p2Diff game) \<Longrightarrow>
   determineWinner game = (playerName (player1 game), 0, damage (p1Damage game))"
  by (auto simp: determineWinner_def)

lemma diffLess_asym: "diffLess a b \<Longrightarrow> \<not> diffLess b a"
  by (cases a; cases b) auto


lemma determineWinner_p2:
  "\<not> (isMiss (p1Damage game) \<and> isMiss (p2Damage game)) \<Longrightarrow> diffLess (p2Diff game) (p1Diff game) \<Longrightarrow>
   determineWinner game = (playerName (player2 game), damage (p2Damage game), 0)"
  using diffLess_asym[of "p2Diff game" "p1Diff game"] by (auto simp: determineWinner_def)


lemma null_p1: "result (player1 game) = None \<Longrightarrow>
  isMiss (p1Damage game) \<and> damage (p1Damage game) = 0 \<and> damageType (p1Damage game) = ''miss'' \<and> p1Diff game = None"
  by (simp add: p1Damage_def p1Diff_def calculateDamage_None)

lemma null_p2: "result (player2 game) = None \<Longrightarrow>
  isMiss (p2Damage game) \<and> damage (p2Damage game) = 0 \<and> damageType (p2Damage game) = ''miss'' \<and> p2Diff game = None"
  by (simp add: p2Damage_def p2Diff_def calculateDamage_None)

lemma not_miss_Some1: "\<not> isMiss (p1Damage game) \<Longrightarrow> \<exists>d. p1Diff game = Some d"
  by (cases "result (player1 game)") (auto simp: p1Damage_def p1Diff_def calculateDamage_None)

lemma not_miss_Some2: "\<not> isMiss (p2Damage game) \<Longrightarrow> \<exists>d. p2Diff game = Some d"
  by (cases "result (player2 game)") (auto simp: p2Damage_def p2Diff_def calculateDamage_None)

lemma roundResult_simps:
  "roundWinner (roundResult game) = fst (determineWinner game)"
  "damageTaken (rrPlayer1 (roundResult game)) = p1DamageTaken game"
  "damageTaken (rrPlayer2 (roundResult game)) = p2DamageTaken game"
  "prDamageType (rrPlayer1 (roundResult game)) = damageType (p1Damage game)"
  "prDamageType (rrPlayer2 (roundResult game)) = damageType (p2Damage game)"
  "currentHp (rrPlayer1 (roundResult game)) = hp1After game"
  "currentHp (rrPlayer2 (roundResult game)) = hp2After game"
  "gameOver (roundResult game) = fst (over game)"
  "winner (roundResult game) = snd (over game)"
  by (simp_all add: roundResult_def)

lemma resolvedGame_simps:
  "hp (player1 (resolvedGame game)) = hp1After game"
  "hp (player2 (resolvedGame game)) = hp2After game"
  "status (resolvedGame game) = (if fst (over game) then finished else waiting_next)"
  by (simp_all add: resolvedGame_def resetSubmission_def)

subsection \<open>Round resolution\<close>


lemma testGames_lookup: "(Map.empty(''TEST4'' \<mapsto> g)) ''TEST4'' = Some g" by simp

lemma submittedGame_sel:
  "result (player1 (submittedGame e1 r1 e2 r2)) = r1"
  "result (player2 (submittedGame e1 r1 e2 r2)) = r2"
  "target (submittedGame e1 r1 e2 r2) = 10"
  "difficulty (submittedGame e1 r1 e2 r2) = easy"
  "playerName (player1 (submittedGame e1 r1 e2 r2)) = ''Player1''"
  "playerName (player2 (submittedGame e1 r1 e2 r2)) = ''Player2''"
  "hp (player1 (submittedGame e1 r1 e2 r2)) = 150"
  "hp (player2 (submittedGame e1 r1 e2 r2)) = 150"
  "status (submittedGame e1 r1 e2 r2) = playing"
  by (simp_all add: submittedGame_def testGame_def testPlayer_def)

lemma calculateDamage_easy_10:
  "calculateDamage (Some 10) 10 easy = \<lparr> damage = 50, damageType = ''perfect'', isMiss = False, difference = Some 0 \<rparr>"
  "calculateDamage (Some 30) 10 easy = \<lparr> damage = 0, damageType = ''miss'', isMiss = True, difference = Some 20 \<rparr>"
  "calculateDamage (Some 12) 10 easy = \<lparr> damage = 40, damageType = ''excellent'', isMiss = False, difference = Some 2 \<rparr>"
  by (simp_all add: calculateDamage_def Let_def)


subsection \<open>Health and the end of the match\<close>

lemma hpAfter_nonneg: "0 \<le> hp1After game" "0 \<le> hp2After game"
  by (simp_all add: hp1After_def hp2After_def)

text \<open>
  Claim C7. After \<open>resolveRound\<close> each player's health is the old health minus the damage
  taken, clamped at zero, so it is never negative. If exactly one player's health is
  zero the match is over, finished, and the other player is the winner; if both are zero
  the match is over, finished, and the winner is \<open>draw\<close>; if neither is zero the match
  goes on.
\<close>

theorem resolveRound_health:
  assumes "games rc = Some game"
  shows "\<exists>res game'. resolveRound rc games = (Some res, games(rc \<mapsto> game')) \<and>
     hp (player1 game') = max 0 (hp (player1 game) - damageTaken (rrPlayer1 res)) \<and>
     hp (player2 game') = max 0 (hp (player2 game) - damageTaken (rrPlayer2 res)) \<and>
     0 \<le> hp (player1 game') \<and> 0 \<le> hp (player2 game') \<and>
     currentHp (rrPlayer1 res) = hp (player1 game') \<and>
     currentHp (rrPlayer2 res) = hp (player2 game') \<and>
     (hp (player1 game') = 0 \<and> hp (player2 game') \<noteq> 0 \<longrightarrow>
        gameOver res \<and> winner res = Some (playerName (player2 game)) \<and> status game' = finished) \<and>
     (hp (player2 game') = 0 \<and> hp (player1 game') \<noteq> 0 \<longrightarrow>
        gameOver res \<and> winner res = Some (playerName (player1 game)) \<and> status game' = finished) \<and>
     (hp (player1 game') = 0 \<and> hp (player2 game') = 0 \<longrightarrow>
        gameOver res \<and> winner res = Some ''draw'' \<and> status game' = finished) \<and>
     (hp (player1 game') \<noteq> 0 \<and> hp (player2 game') \<noteq> 0 \<longrightarrow>
        \<not> gameOver res \<and> winner res = None \<and> status game' = waiting_next)"
proof -
  let ?res = "roundResult game" and ?g = "resolvedGame game"
  have r: "resolveRound rc games = (Some ?res, games(rc \<mapsto> ?g))"
    using assms by (rule resolveRound_Some)
  have h1: "hp (player1 ?g) = max 0 (hp (player1 game) - damageTaken (rrPlayer1 ?res))"
    by (simp add: resolvedGame_simps roundResult_simps hp1After_def)
  have h2: "hp (player2 ?g) = max 0 (hp (player2 game) - damageTaken (rrPlayer2 ?res))"
    by (simp add: resolvedGame_simps roundResult_simps hp2After_def)
  have n1: "0 \<le> hp (player1 ?g)" and n2: "0 \<le> hp (player2 ?g)"
    by (simp_all add: resolvedGame_simps hpAfter_nonneg)
  have c1: "currentHp (rrPlayer1 ?res) = hp (player1 ?g)"
   and c2: "currentHp (rrPlayer2 ?res) = hp (player2 ?g)"
    by (simp_all add: resolvedGame_simps roundResult_simps)
  have o1: "hp (player1 ?g) = 0 \<and> hp (player2 ?g) \<noteq> 0 \<longrightarrow>
        gameOver ?res \<and> winner ?res = Some (playerName (player2 game)) \<and> status ?g = finished"
    using hpAfter_nonneg[of game]
    by (auto simp: resolvedGame_simps roundResult_simps over_def checkGameOver_def)
  have o2: "hp (player2 ?g) = 0 \<and> hp (player1 ?g) \<noteq> 0 \<longrightarrow>
        gameOver ?res \<and> winner ?res = Some (playerName (player1 game)) \<and> status ?g = finished"
    using hpAfter_nonneg[of game]
    by (auto simp: resolvedGame_simps roundResult_simps over_def checkGameOver_def)
  have o3: "hp (player1 ?g) = 0 \<and> hp (player2 ?g) = 0 \<longrightarrow>
        gameOver ?res \<and> winner ?res = Some ''draw'' \<and> status ?g = finished"
    by (simp add: resolvedGame_simps roundResult_simps over_def checkGameOver_def)
  have o4: "hp (player1 ?g) \<noteq> 0 \<and> hp (player2 ?g) \<noteq> 0 \<longrightarrow>
        \<not> gameOver ?res \<and> winner ?res = None \<and> status ?g = waiting_next"
    using hpAfter_nonneg[of game]
    by (auto simp: resolvedGame_simps roundResult_simps over_def checkGameOver_def)
  show ?thesis
    apply (rule exI[of _ ?res])
    apply (rule exI[of _ ?g])
    apply (intro conjI)
              apply (rule r)
             apply (rule h1)
            apply (rule h2)
           apply (rule n1)
          apply (rule n2)
         apply (rule c1)
        apply (rule c2)
       apply (rule o1)
      apply (rule o2)
     apply (rule o3)
    apply (rule o4)
    done
qed

lemma withHp_sel:
  "result (player1 (withHp h1 h2 g)) = result (player1 g)"
  "result (player2 (withHp h1 h2 g)) = result (player2 g)"
  "target (withHp h1 h2 g) = target g"
  "difficulty (withHp h1 h2 g) = difficulty g"
  "playerName (player1 (withHp h1 h2 g)) = playerName (player1 g)"
  "playerName (player2 (withHp h1 h2 g)) = playerName (player2 g)"
  "hp (player1 (withHp h1 h2 g)) = h1"
  "hp (player2 (withHp h1 h2 g)) = h2"
  "status (withHp h1 h2 g) = status g"
  by (simp_all add: withHp_def)

lemmas eval_round = hp1After_def hp2After_def p1DamageTaken_def p2DamageTaken_def
  determineWinner_def p1Damage_def p2Damage_def p1Diff_def p2Diff_def withHp_sel
  submittedGame_sel calculateDamage_easy_10 calculateDamage_None floor_half'

theorem resolveRound_health_witness:
  "(\<exists>res game'. resolveRound ''TEST4''
        (Map.empty(''TEST4'' \<mapsto> withHp 150 30 (submittedGame ''10'' (Some 10) ''30'' (Some 30))))
       = (Some res, Map.empty(''TEST4'' \<mapsto> game')) \<and>
      hp (player1 game') = 150 \<and> hp (player2 game') = 0 \<and>
      gameOver res \<and> winner res = Some ''Player1'' \<and> status game' = finished) \<and>
   (\<exists>res game'. resolveRound ''TEST4''
        (Map.empty(''TEST4'' \<mapsto> withHp 20 20 (submittedGame ''10'' (Some 10) ''5+2+3'' (Some 10))))
       = (Some res, Map.empty(''TEST4'' \<mapsto> game')) \<and>
      hp (player1 game') = 0 \<and> hp (player2 game') = 0 \<and>
      gameOver res \<and> winner res = Some ''draw'' \<and> status game' = finished)"
proof (intro conjI)
  let ?g = "withHp 150 30 (submittedGame ''10'' (Some 10) ''30'' (Some 30))"
  let ?m = "Map.empty(''TEST4'' \<mapsto> ?g)"
  have look: "?m ''TEST4'' = Some ?g" by simp
  from resolveRound_health[of ?m "''TEST4''" ?g] look
  obtain res game' where r: "resolveRound ''TEST4'' ?m = (Some res, ?m(''TEST4'' \<mapsto> game'))"
    and h1: "hp (player1 game') = max 0 (hp (player1 ?g) - damageTaken (rrPlayer1 res))"
    and h2: "hp (player2 game') = max 0 (hp (player2 ?g) - damageTaken (rrPlayer2 res))"
    and o: "hp (player2 game') = 0 \<and> hp (player1 game') \<noteq> 0 \<longrightarrow>
        gameOver res \<and> winner res = Some (playerName (player1 ?g)) \<and> status game' = finished"
    by blast
  have "res = roundResult ?g" using r resolveRound_Some[of ?m "''TEST4''" ?g] look by simp
  then have d: "damageTaken (rrPlayer1 res) = 0" "damageTaken (rrPlayer2 res) = 50"
    by (simp_all add: roundResult_simps eval_round)
  have v: "hp (player1 game') = 150" "hp (player2 game') = 0"
    using h1 h2 d by (simp_all add: withHp_sel)
  have n: "playerName (player1 ?g) = ''Player1''" by (simp add: withHp_sel submittedGame_sel)
  show "\<exists>res game'. resolveRound ''TEST4'' ?m = (Some res, Map.empty(''TEST4'' \<mapsto> game')) \<and>
      hp (player1 game') = 150 \<and> hp (player2 game') = 0 \<and>
      gameOver res \<and> winner res = Some ''Player1'' \<and> status game' = finished"
    using r v o n by (intro exI[of _ res] exI[of _ game']) simp
next
  let ?g = "withHp 20 20 (submittedGame ''10'' (Some 10) ''5+2+3'' (Some 10))"
  let ?m = "Map.empty(''TEST4'' \<mapsto> ?g)"
  have look: "?m ''TEST4'' = Some ?g" by simp
  from resolveRound_health[of ?m "''TEST4''" ?g] look
  obtain res game' where r: "resolveRound ''TEST4'' ?m = (Some res, ?m(''TEST4'' \<mapsto> game'))"
    and h1: "hp (player1 game') = max 0 (hp (player1 ?g) - damageTaken (rrPlayer1 res))"
    and h2: "hp (player2 game') = max 0 (hp (player2 ?g) - damageTaken (rrPlayer2 res))"
    and o: "hp (player1 game') = 0 \<and> hp (player2 game') = 0 \<longrightarrow>
        gameOver res \<and> winner res = Some ''draw'' \<and> status game' = finished"
    by blast
  have "res = roundResult ?g" using r resolveRound_Some[of ?m "''TEST4''" ?g] look by simp
  then have d: "damageTaken (rrPlayer1 res) = 25" "damageTaken (rrPlayer2 res) = 25"
    by (simp_all add: roundResult_simps eval_round)
  have v: "hp (player1 game') = 0" "hp (player2 game') = 0"
    using h1 h2 d by (simp_all add: withHp_sel)
  show "\<exists>res game'. resolveRound ''TEST4'' ?m = (Some res, Map.empty(''TEST4'' \<mapsto> game')) \<and>
      hp (player1 game') = 0 \<and> hp (player2 game') = 0 \<and>
      gameOver res \<and> winner res = Some ''draw'' \<and> status game' = finished"
    using r v o by (intro exI[of _ res] exI[of _ game']) simp
qed

subsection \<open>Resolving twice\<close>

lemma resolvedGame_reset:
  assumes "\<not> fst (over game)"
  shows "result (player1 (resolvedGame game)) = None" "result (player2 (resolvedGame game)) = None"
    "hp (player1 (resolvedGame game)) = hp1After game" "hp (player2 (resolvedGame game)) = hp2After game"
    "0 < hp1After game" "0 < hp2After game"
  using assms hpAfter_nonneg[of game]
  by (auto simp: resolvedGame_def resetSubmission_def over_def checkGameOver_def split: if_splits)

lemma resolvedGame_idem:
  assumes "\<not> fst (over game)"
  shows "resolvedGame (resolvedGame game) = resolvedGame game"
    and "determineWinner (resolvedGame game) = (''draw_miss'', 0, 0)"
    and "\<not> fst (over (resolvedGame game))"
proof -
  let ?g = "resolvedGame game"
  have m: "isMiss (p1Damage ?g)" "isMiss (p2Damage ?g)"
    using resolvedGame_reset[OF assms] null_p1[of ?g] null_p2[of ?g] by auto
  show w: "determineWinner ?g = (''draw_miss'', 0, 0)"
    using m by (rule determineWinner_both_miss)
  have a1: "hp1After ?g = hp1After game" and a2: "hp2After ?g = hp2After game"
    using resolvedGame_reset[OF assms] w
    by (simp_all add: hp1After_def[of ?g] hp2After_def[of ?g] p1DamageTaken_def p2DamageTaken_def)
  show o: "\<not> fst (over ?g)"
    using resolvedGame_reset[OF assms] a1 a2 by (simp add: over_def[of ?g] checkGameOver_def)
  show "resolvedGame ?g = ?g"
    using o a1 a2 assms
    by (simp add: resolvedGame_def[of ?g]) (simp add: resolvedGame_def resetSubmission_def)
qed

text \<open>
  Claim C5, as amended. \<open>resolveRound\<close> has no guard against a second call. After a
  resolution that did not end the match, a second call is not rejected but changes
  nothing: it leaves the whole game state as the first call left it, both players'
  health included, and reports a \<open>draw_miss\<close> round with zero damage.
\<close>

theorem resolveRound_twice:
  assumes "games rc = Some game"
    and "resolveRound rc games = (Some res, games')"
    and "\<not> gameOver res"
  shows "\<exists>res2. resolveRound rc games' = (Some res2, games') \<and>
     roundWinner res2 = ''draw_miss'' \<and>
     damageTaken (rrPlayer1 res2) = 0 \<and> damageTaken (rrPlayer2 res2) = 0 \<and>
     \<not> gameOver res2"
proof -
  from assms(1,2) have res: "res = roundResult game" and g': "games' = games(rc \<mapsto> resolvedGame game)"
    by (simp_all add: resolveRound_Some)
  from assms(3) res have no: "\<not> fst (over game)" by (simp add: roundResult_simps)
  let ?g = "resolvedGame game"
  have look: "games' rc = Some ?g" by (simp add: g')
  have "resolveRound rc games' = (Some (roundResult ?g), games'(rc \<mapsto> resolvedGame ?g))"
    using look by (rule resolveRound_Some)
  also have "games'(rc \<mapsto> resolvedGame ?g) = games'"
    by (simp add: resolvedGame_idem(1)[OF no] g')
  finally have r: "resolveRound rc games' = (Some (roundResult ?g), games')" .
  show ?thesis
    apply (rule exI[of _ "roundResult ?g"])
    using r resolvedGame_idem(2,3)[OF no]
    by (simp add: roundResult_simps p1DamageTaken_def p2DamageTaken_def)
qed

theorem resolveRound_twice_witness:
  "\<exists>res games' res2.
     resolveRound ''TEST4'' (Map.empty(''TEST4'' \<mapsto> submittedGame ''10'' (Some 10) ''30'' (Some 30)))
       = (Some res, games') \<and> \<not> gameOver res \<and> damageTaken (rrPlayer2 res) = 50 \<and>
     resolveRound ''TEST4'' games' = (Some res2, games') \<and>
     roundWinner res2 = ''draw_miss'' \<and>
     damageTaken (rrPlayer1 res2) = 0 \<and> damageTaken (rrPlayer2 res2) = 0 \<and> \<not> gameOver res2"
proof -
  let ?g = "submittedGame ''10'' (Some 10) ''30'' (Some 30)"
  let ?m = "Map.empty(''TEST4'' \<mapsto> ?g)"
  let ?m' = "?m(''TEST4'' \<mapsto> resolvedGame ?g)"
  have look: "?m ''TEST4'' = Some ?g" by simp
  have r: "resolveRound ''TEST4'' ?m = (Some (roundResult ?g), ?m')"
    using look by (rule resolveRound_Some)
  have hps: "hp1After ?g = 150" "hp2After ?g = 100" by (simp_all add: eval_round)
  have no: "\<not> gameOver (roundResult ?g)"
    by (simp add: roundResult_simps over_def checkGameOver_def hps)
  have d: "damageTaken (rrPlayer2 (roundResult ?g)) = 50"
    by (simp add: roundResult_simps eval_round)
  from resolveRound_twice[OF look r no] obtain res2 where
    "resolveRound ''TEST4'' ?m' = (Some res2, ?m') \<and>
     roundWinner res2 = ''draw_miss'' \<and>
     damageTaken (rrPlayer1 res2) = 0 \<and> damageTaken (rrPlayer2 res2) = 0 \<and> \<not> gameOver res2"
    by blast
  with r no d show ?thesis by blast
qed

text \<open>
  Claim C5 as stated fails once the first resolution ends the match: the submissions are
  then kept, and a second call is accepted and applies the damage again. In a tie on the
  target with 40 and 20 health points, the first call leaves 15 and 0 and finishes the
  match; the second call returns a result again and takes the first player from 15 to 0.
\<close>

theorem resolveRound_twice_counterexample:
  "fst (resolveRound ''TEST4'' (snd (resolveRound ''TEST4''
      (Map.empty(''TEST4'' \<mapsto> withHp 40 20 (submittedGame ''10'' (Some 10) ''5+2+3'' (Some 10))))))) \<noteq> None
   \<and> map_option (\<lambda>g. (status g, hp (player1 g), hp (player2 g)))
       (snd (resolveRound ''TEST4''
         (Map.empty(''TEST4'' \<mapsto> withHp 40 20 (submittedGame ''10'' (Some 10) ''5+2+3'' (Some 10))))) ''TEST4'')
     = Some (finished, 15, 0)
   \<and> map_option (\<lambda>g. (status g, hp (player1 g), hp (player2 g)))
       (snd (resolveRound ''TEST4'' (snd (resolveRound ''TEST4''
         (Map.empty(''TEST4'' \<mapsto> withHp 40 20 (submittedGame ''10'' (Some 10) ''5+2+3'' (Some 10))))))) ''TEST4'')
     = Some (finished, 0, 0)"
proof -
  let ?g = "withHp 40 20 (submittedGame ''10'' (Some 10) ''5+2+3'' (Some 10))"
  let ?m = "Map.empty(''TEST4'' \<mapsto> ?g)"
  let ?g1 = "resolvedGame ?g"
  have r1: "resolveRound ''TEST4'' ?m = (Some (roundResult ?g), Map.empty(''TEST4'' \<mapsto> ?g1))"
    using resolveRound_Some[of ?m "''TEST4''" ?g] by simp
  have hps: "hp1After ?g = 15" "hp2After ?g = 0" by (simp_all add: eval_round)
  have ov: "fst (over ?g)" by (simp add: over_def checkGameOver_def hps)
  have g1: "?g1 = ?g \<lparr> player1 := (player1 ?g) \<lparr> hp := 15 \<rparr>,
                        player2 := (player2 ?g) \<lparr> hp := 0 \<rparr>, status := finished \<rparr>"
    using ov hps by (simp add: resolvedGame_def)
  have sel1: "result (player1 ?g1) = Some 10" "result (player2 ?g1) = Some 10"
     "target ?g1 = 10" "difficulty ?g1 = easy" "hp (player1 ?g1) = 15" "hp (player2 ?g1) = 0"
     "status ?g1 = finished"
    by (simp_all add: g1 withHp_sel submittedGame_sel)
  have r2: "resolveRound ''TEST4'' (Map.empty(''TEST4'' \<mapsto> ?g1))
            = (Some (roundResult ?g1), Map.empty(''TEST4'' \<mapsto> resolvedGame ?g1))"
    using resolveRound_Some[of "Map.empty(''TEST4'' \<mapsto> ?g1)" "''TEST4''" ?g1] by simp
  have hps2: "hp1After ?g1 = 0" "hp2After ?g1 = 0"
    by (simp_all add: hp1After_def hp2After_def p1DamageTaken_def p2DamageTaken_def
        determineWinner_def p1Damage_def p2Damage_def p1Diff_def p2Diff_def sel1
        calculateDamage_easy_10 floor_half')
  have ov2: "fst (over ?g1)" by (simp add: over_def checkGameOver_def hps2)
  have st2: "status (resolvedGame ?g1) = finished"
    by (simp add: resolvedGame_simps ov2)
  show ?thesis
    by (simp add: r1 r2 sel1 st2 resolvedGame_simps hps2 hps ov ov2)
qed

subsection \<open>Submissions\<close>

lemma testGame_sel:
  "status testGame = playing" "playerId (player1 testGame) = ''p1''"
  "playerId (player2 testGame) = ''p2''" "\<not> submitted (player1 testGame)"
  "\<not> submitted (player2 testGame)" "variableValues testGame = []"
  by (simp_all add: testGame_def testPlayer_def)

text \<open>
  The three rejections come before every write and before the evaluation: whatever
  \<open>eval\<close> may do, a rejected submission returns the games as they were.
\<close>

lemma submit_rejects_unchanged:
  assumes "games rc = None \<or> (\<exists>game. games rc = Some game \<and> (status game \<noteq> playing \<or>
       submitted (if playerId (player1 game) = pid then player1 game else player2 game)))"
  shows "\<exists>msg. submitPlayerExpression ev rc pid e games = (Failure msg, games)"
proof (cases "games rc")
  case None
  then show ?thesis using submit_missing by blast
next
  case (Some game)
  show ?thesis
  proof (cases "status game = playing")
    case True
    with assms Some have "submitted (if playerId (player1 game) = pid then player1 game else player2 game)"
      by auto
    with Some True show ?thesis using submit_already by blast
  next
    case False
    with Some show ?thesis using submit_not_playing by blast
  qed
qed

text \<open>The texts of the examples pass the four replacements unchanged.\<close>

lemma evaluate_flag_text:
  "evaluateExpression ev ''games.forEach(g => g.player1.submitted = false), 1'' [] rc games
     = ev ''games.forEach(g => g.player1.submitted = false), 1'' rc games"
  by (simp add: evaluateExpression_def isSpace_def isDigit_def isXY_def)

lemma evaluate_5_2_3: "evaluateExpression evalScript ''5+2+3'' [] rc games = (Some 10, games)"
  by (simp add: evaluateExpression_def evalScript_def evalArith_def isSpace_def isDigit_def
      isXY_def isOp_def digitVal_def prec_def)


text \<open>
  Claim C6 fails on the second half: \<open>player.submitted = true\<close> is written before the
  submitted text is handed to \<open>eval\<close>, and the text can clear the flag again. The first
  player of the test game submits the text
  \<open>games.forEach(g => g.player1.submitted = false), 1\<close>: the submission succeeds, the
  text and the result 1 are stored, and the player stands as not submitted. The same
  player's next submission \<open>5+2+3\<close> in the same round is then accepted and overwrites the
  stored expression and result. (The first half of the claim holds for every \<open>eval\<close>:
  \<open>submit_rejects_unchanged\<close>.)
\<close>

theorem second_submission_overwrites:
  "submitPlayerExpression evalScript ''TEST4'' ''p1''
     ''games.forEach(g => g.player1.submitted = false), 1'' testGames =
     (Success, Map.empty(''TEST4'' \<mapsto> testGame \<lparr> player1 := (player1 testGame)
        \<lparr> expression := ''games.forEach(g => g.player1.submitted = false), 1'',
          submitted := False, result := Some 1 \<rparr> \<rparr>)) \<and>
   submitPlayerExpression evalScript ''TEST4'' ''p1'' ''5+2+3''
     (Map.empty(''TEST4'' \<mapsto> testGame \<lparr> player1 := (player1 testGame)
        \<lparr> expression := ''games.forEach(g => g.player1.submitted = false), 1'',
          submitted := False, result := Some 1 \<rparr> \<rparr>)) =
     (Success, Map.empty(''TEST4'' \<mapsto> testGame \<lparr> player1 := (player1 testGame)
        \<lparr> expression := ''5+2+3'', submitted := True, result := Some 10 \<rparr> \<rparr>))"
proof -
  let ?t = "''games.forEach(g => g.player1.submitted = false), 1''"
  let ?g1 = "testGame \<lparr> player1 := (player1 testGame)
        \<lparr> expression := ?t, submitted := False, result := Some 1 \<rparr> \<rparr>"
  have s: "evalScript ?t rc games =
     (Some 1, map_option (\<lambda>g. g \<lparr> player1 := (player1 g) \<lparr> submitted := False \<rparr> \<rparr>) \<circ> games)"
    for rc games by (simp add: evalScript_def)
  have a: "submitPlayerExpression evalScript ''TEST4'' ''p1'' ?t testGames
           = (Success, Map.empty(''TEST4'' \<mapsto> ?g1))"
    using submit_ok[of testGames "''TEST4''" testGame "''p1''" evalScript ?t]
    by (simp add: testGames_def testGame_sel evaluate_flag_text s markSubmitted_def storeResult_def)
  have sel: "status ?g1 = playing" "playerId (player1 ?g1) = ''p1''" "\<not> submitted (player1 ?g1)"
    "variableValues ?g1 = []"
    by (simp_all add: testGame_sel)
  have b: "submitPlayerExpression evalScript ''TEST4'' ''p1'' ''5+2+3'' (Map.empty(''TEST4'' \<mapsto> ?g1))
           = (Success, Map.empty(''TEST4'' \<mapsto> testGame \<lparr> player1 := (player1 testGame)
                \<lparr> expression := ''5+2+3'', submitted := True, result := Some 10 \<rparr> \<rparr>))"
    using submit_ok[of "Map.empty(''TEST4'' \<mapsto> ?g1)" "''TEST4''" ?g1 "''p1''" evalScript "''5+2+3''"]
    by (simp add: sel testGame_sel evaluate_5_2_3 markSubmitted_def storeResult_def)
  from a b show ?thesis by simp
qed


subsection \<open>The order of the two submissions\<close>

lemma players_update_commute:
  "(g :: GameState) \<lparr> player1 := x, player2 := y \<rparr> = g \<lparr> player2 := y, player1 := x \<rparr>"
  by (cases g) simp

text \<open>
  Where the evaluation has no effect on the games and its value depends on the text
  alone, as for arithmetic strings, the two orders agree: each submission writes only
  the fields of its own player.
\<close>

lemma submit_commute_pure:
  assumes pure: "\<And>code r g. ev code r g = (f code, g)"
    and "games rc = Some game" and "playerId (player1 game) = a" and "b \<noteq> a"
  shows "snd (submitPlayerExpression ev rc b eb (snd (submitPlayerExpression ev rc a ea games)))
       = snd (submitPlayerExpression ev rc a ea (snd (submitPlayerExpression ev rc b eb games)))"
proof -
  have ee: "evaluateExpression ev e vv r g = (fst (evaluateExpression ev e vv r Map.empty), g)"
    for e vv r g
    by (simp add: evaluateExpression_def Let_def pure)
  let ?ra = "fst (evaluateExpression ev ea (variableValues game) rc Map.empty)"
  let ?rb = "fst (evaluateExpression ev eb (variableValues game) rc Map.empty)"
  let ?ga = "game \<lparr> player1 := (player1 game) \<lparr> expression := ea, submitted := True, result := ?ra \<rparr> \<rparr>"
  let ?gb = "game \<lparr> player2 := (player2 game) \<lparr> expression := eb, submitted := True, result := ?rb \<rparr> \<rparr>"
  have A: "submitPlayerExpression ev rc a ea games =
       (if status game \<noteq> playing then (Failure ''No es momento de enviar expresiones'', games)
        else if submitted (player1 game) then (Failure ''Ya enviaste tu expresion'', games)
        else (Success, games(rc \<mapsto> ?ga)))"
    using assms(2-4)
    by (simp add: submitPlayerExpression_def Let_def ee[of ea _ rc "games(rc \<mapsto> _)"]
        markSubmitted_def storeResult_def)
  have B: "submitPlayerExpression ev rc b eb games =
       (if status game \<noteq> playing then (Failure ''No es momento de enviar expresiones'', games)
        else if submitted (player2 game) then (Failure ''Ya enviaste tu expresion'', games)
        else (Success, games(rc \<mapsto> ?gb)))"
    using assms(2-4)
    by (simp add: submitPlayerExpression_def Let_def ee[of eb _ rc "games(rc \<mapsto> _)"]
        markSubmitted_def storeResult_def)
  have BA: "submitPlayerExpression ev rc b eb (games(rc \<mapsto> ?ga)) =
       (if status game \<noteq> playing then (Failure ''No es momento de enviar expresiones'', games(rc \<mapsto> ?ga))
        else if submitted (player2 game) then (Failure ''Ya enviaste tu expresion'', games(rc \<mapsto> ?ga))
        else (Success, games(rc \<mapsto> ?ga \<lparr> player2 := (player2 game) \<lparr> expression := eb, submitted := True,
                 result := ?rb \<rparr> \<rparr>)))"
    using assms(2-4)
    by (simp add: submitPlayerExpression_def Let_def ee[of eb _ rc "(games(rc \<mapsto> _))(rc \<mapsto> _)"]
        ee[of eb _ rc "games(rc \<mapsto> _)"] markSubmitted_def storeResult_def)
  have AB: "submitPlayerExpression ev rc a ea (games(rc \<mapsto> ?gb)) =
       (if status game \<noteq> playing then (Failure ''No es momento de enviar expresiones'', games(rc \<mapsto> ?gb))
        else if submitted (player1 game) then (Failure ''Ya enviaste tu expresion'', games(rc \<mapsto> ?gb))
        else (Success, games(rc \<mapsto> ?gb \<lparr> player1 := (player1 game) \<lparr> expression := ea, submitted := True,
                 result := ?ra \<rparr> \<rparr>)))"
    using assms(2-4)
    by (simp add: submitPlayerExpression_def Let_def ee[of ea _ rc "(games(rc \<mapsto> _))(rc \<mapsto> _)"]
        ee[of ea _ rc "games(rc \<mapsto> _)"] markSubmitted_def storeResult_def)
  show ?thesis by (simp add: A B AB BA players_update_commute)
qed


lemma evaluate_assign_text:
  "evaluateExpression ev ''variableValues.x = 9, 1'' [] rc games
     = ev ''variableValues.x = 9, 1'' rc games"
  by (simp add: evaluateExpression_def isSpace_def isDigit_def isXY_def)

lemma evaluate_x_unbound: "evaluateExpression evalScript ''x+1'' [] rc games = (None, games)"
  by (simp add: evaluateExpression_def evalScript_def evalArith_def isSpace_def isDigit_def
      isXY_def isOp_def)

lemma toString_9: "toString 9 = ''9''"
  by code_simp

lemma evaluate_x_bound:
  "evaluateExpression evalScript ''x+1'' [(CHR ''x'', 9)] rc games = (Some 10, games)"
  by (simp add: evaluateExpression_def evalScript_def evalArith_def isSpace_def isDigit_def
      isXY_def isOp_def digitVal_def prec_def replaceSymbol_def toString_9)

lemma calculateDamage_easy_1:
  "calculateDamage (Some 1) 10 easy = \<lparr> damage = 20, damageType = ''ok'', isMiss = False, difference = Some 9 \<rparr>"
  by (simp add: calculateDamage_def Let_def)

text \<open>
  Claim C9 fails: the submitted text is handed to \<open>eval\<close> with the game's own
  \<open>variableValues\<close> object in scope, so one player's text can change what the other
  player's text evaluates to. In the test game (easy, no variables, target 10) the first
  player submits \<open>x+1\<close> and the second \<open>variableValues.x = 9, 1\<close>. First player first:
  \<open>x\<close> is unbound, the result is \<open>null\<close>, and the second player, at distance 9, wins the
  round. Second player first: \<open>x\<close> is 9 by then, the first player's result is 10, an
  exact hit, and the first player wins the round. (For evaluations without effect the
  two orders agree: \<open>submit_commute_pure\<close>.)
\<close>

theorem submission_order_matters:
  "map_option (\<lambda>g. (result (player1 g), result (player2 g)))
     (snd (submitPlayerExpression evalScript ''TEST4'' ''p2'' ''variableValues.x = 9, 1''
        (snd (submitPlayerExpression evalScript ''TEST4'' ''p1'' ''x+1'' testGames))) ''TEST4'')
     = Some (None, Some 1) \<and>
   map_option (\<lambda>g. (result (player1 g), result (player2 g)))
     (snd (submitPlayerExpression evalScript ''TEST4'' ''p1'' ''x+1''
        (snd (submitPlayerExpression evalScript ''TEST4'' ''p2'' ''variableValues.x = 9, 1'' testGames)))
        ''TEST4'')
     = Some (Some 10, Some 1) \<and>
   map_option roundWinner (fst (resolveRound ''TEST4''
     (snd (submitPlayerExpression evalScript ''TEST4'' ''p2'' ''variableValues.x = 9, 1''
        (snd (submitPlayerExpression evalScript ''TEST4'' ''p1'' ''x+1'' testGames))))))
     = Some ''Player2'' \<and>
   map_option roundWinner (fst (resolveRound ''TEST4''
     (snd (submitPlayerExpression evalScript ''TEST4'' ''p1'' ''x+1''
        (snd (submitPlayerExpression evalScript ''TEST4'' ''p2'' ''variableValues.x = 9, 1'' testGames))))))
     = Some ''Player1''"
proof -
  let ?t = "''variableValues.x = 9, 1''"
  have s: "evalScript ?t rc games =
     (Some 1, case games rc of None \<Rightarrow> games
              | Some g \<Rightarrow> games(rc \<mapsto> g \<lparr> variableValues := setVar CHR ''x'' 9 (variableValues g) \<rparr>))"
    for rc games by (simp add: evalScript_def)
  have v: "setVar CHR ''x'' 9 [] = [(CHR ''x'', 9)]" by (simp add: setVar_def)
  let ?p1a = "(player1 testGame) \<lparr> expression := ''x+1'', submitted := True, result := None \<rparr>"
  let ?p1b = "(player1 testGame) \<lparr> expression := ''x+1'', submitted := True, result := Some 10 \<rparr>"
  let ?p2 = "(player2 testGame) \<lparr> expression := ?t, submitted := True, result := Some 1 \<rparr>"
  let ?ga = "testGame \<lparr> player1 := ?p1a \<rparr>"
  let ?gb = "testGame \<lparr> variableValues := [(CHR ''x'', 9)], player2 := ?p2 \<rparr>"
  let ?gab = "testGame \<lparr> player1 := ?p1a, variableValues := [(CHR ''x'', 9)], player2 := ?p2 \<rparr>"
  let ?gba = "testGame \<lparr> variableValues := [(CHR ''x'', 9)], player2 := ?p2, player1 := ?p1b \<rparr>"
  have a: "submitPlayerExpression evalScript ''TEST4'' ''p1'' ''x+1'' testGames
           = (Success, Map.empty(''TEST4'' \<mapsto> ?ga))"
    using submit_ok[of testGames "''TEST4''" testGame "''p1''" evalScript "''x+1''"]
    by (simp add: testGames_def testGame_sel evaluate_x_unbound markSubmitted_def storeResult_def)
  have ab: "submitPlayerExpression evalScript ''TEST4'' ''p2'' ?t (Map.empty(''TEST4'' \<mapsto> ?ga))
           = (Success, Map.empty(''TEST4'' \<mapsto> ?gab))"
    using submit_ok[of "Map.empty(''TEST4'' \<mapsto> ?ga)" "''TEST4''" ?ga "''p2''" evalScript ?t]
    by (simp add: testGame_sel evaluate_assign_text s v markSubmitted_def storeResult_def)
  have b: "submitPlayerExpression evalScript ''TEST4'' ''p2'' ?t testGames
           = (Success, Map.empty(''TEST4'' \<mapsto> ?gb))"
    using submit_ok[of testGames "''TEST4''" testGame "''p2''" evalScript ?t]
    by (simp add: testGames_def testGame_sel evaluate_assign_text s v markSubmitted_def storeResult_def)
  have ba: "submitPlayerExpression evalScript ''TEST4'' ''p1'' ''x+1'' (Map.empty(''TEST4'' \<mapsto> ?gb))
           = (Success, Map.empty(''TEST4'' \<mapsto> ?gba))"
    using submit_ok[of "Map.empty(''TEST4'' \<mapsto> ?gb)" "''TEST4''" ?gb "''p1''" evalScript "''x+1''"]
    by (simp add: testGame_sel evaluate_x_bound markSubmitted_def storeResult_def)
  have t: "target testGame = 10" "difficulty testGame = easy"
    "playerName (player1 testGame) = ''Player1''" "playerName (player2 testGame) = ''Player2''"
    by (simp_all add: testGame_def testPlayer_def)
  have wab: "fst (determineWinner ?gab) = ''Player2''"
    by (simp add: determineWinner_def p1Damage_def p2Damage_def p1Diff_def p2Diff_def t
        calculateDamage_None calculateDamage_easy_1)
  have wba: "fst (determineWinner ?gba) = ''Player1''"
    by (simp add: determineWinner_def p1Damage_def p2Damage_def p1Diff_def p2Diff_def t
        calculateDamage_easy_10 calculateDamage_easy_1)
  have rab: "resolveRound ''TEST4'' (Map.empty(''TEST4'' \<mapsto> ?gab))
             = (Some (roundResult ?gab), Map.empty(''TEST4'' \<mapsto> resolvedGame ?gab))"
    using resolveRound_Some[of "Map.empty(''TEST4'' \<mapsto> ?gab)" "''TEST4''" ?gab] by simp
  have rba: "resolveRound ''TEST4'' (Map.empty(''TEST4'' \<mapsto> ?gba))
             = (Some (roundResult ?gba), Map.empty(''TEST4'' \<mapsto> resolvedGame ?gba))"
    using resolveRound_Some[of "Map.empty(''TEST4'' \<mapsto> ?gba)" "''TEST4''" ?gba] by simp
  show ?thesis
    by (simp add: a ab b ba rab rba roundResult_simps wab wba)
qed

subsection \<open>Skipping a turn\<close>

lemma null1_taken: "result (player1 game) = None \<Longrightarrow> p2DamageTaken game = 0"
proof (cases "isMiss (p2Damage game)")
  case True
  assume "result (player1 game) = None"
  then show ?thesis using True null_p1[of game]
    by (simp add: p2DamageTaken_def determineWinner_both_miss)
next
  case False
  assume n: "result (player1 game) = None"
  from not_miss_Some2[OF False] obtain d where "p2Diff game = Some d" by blast
  then have "diffLess (p2Diff game) (p1Diff game)" using null_p1[OF n] by simp
  then show ?thesis using False determineWinner_p2[of game] by (simp add: p2DamageTaken_def)
qed

lemma null2_taken: "result (player2 game) = None \<Longrightarrow> p1DamageTaken game = 0"
proof (cases "isMiss (p1Damage game)")
  case True
  assume "result (player2 game) = None"
  then show ?thesis using True null_p2[of game]
    by (simp add: p1DamageTaken_def determineWinner_both_miss)
next
  case False
  assume n: "result (player2 game) = None"
  from not_miss_Some1[OF False] obtain d where "p1Diff game = Some d" by blast
  then have "diffLess (p1Diff game) (p2Diff game)" using null_p2[OF n] by simp
  then show ?thesis using False determineWinner_p1[of game] by (simp add: p1DamageTaken_def)
qed

text \<open>
  Claim C10. \<open>skipPlayerTurn\<close> is \<open>submitPlayerExpression\<close> with the empty expression, so
  it fails in the same cases with the same answer. When it succeeds, the player is marked
  as submitted with an empty stored expression and the result \<open>null\<close>; at resolution this
  player is classified as \<open>miss\<close> and the opponent takes no damage from them.
\<close>

theorem skipPlayerTurn_is_empty_submit:
  "skipPlayerTurn ev rc pid games = submitPlayerExpression ev rc pid [] games \<and>
   (skipPlayerTurn ev rc pid games = (Success, games') \<longrightarrow>
     (\<exists>game' res games''. games' rc = Some game' \<and>
        submitted (if playerId (player1 game') = pid then player1 game' else player2 game') \<and>
        expression (if playerId (player1 game') = pid then player1 game' else player2 game') = [] \<and>
        result (if playerId (player1 game') = pid then player1 game' else player2 game') = None \<and>
        resolveRound rc games' = (Some res, games'') \<and>
        prDamageType (if playerId (player1 game') = pid then rrPlayer1 res else rrPlayer2 res) = ''miss'' \<and>
        damageTaken (if playerId (player1 game') = pid then rrPlayer2 res else rrPlayer1 res) = 0))"
proof (intro conjI impI)
  show "skipPlayerTurn ev rc pid games = submitPlayerExpression ev rc pid [] games"
    by (simp add: skipPlayerTurn_def)
next
  assume "skipPlayerTurn ev rc pid games = (Success, games')"
  then have ok: "submitPlayerExpression ev rc pid [] games = (Success, games')"
    by (simp add: skipPlayerTurn_def)
  then obtain game where Some: "games rc = Some game"
    by (cases "games rc") (auto simp: submit_missing)
  have pl: "status game = playing"
    using ok Some submit_not_playing[of games rc game ev pid "[]"] by (cases "status game = playing") auto
  have ns: "\<not> submitted (if playerId (player1 game) = pid then player1 game else player2 game)"
    using ok Some pl submit_already[of games rc game pid ev "[]"] by auto
  let ?g' = "(if playerId (player1 game) = pid
         then game \<lparr> player1 := (player1 game) \<lparr> expression := [], submitted := True,
                 result := None \<rparr> \<rparr>
         else game \<lparr> player2 := (player2 game) \<lparr> expression := [], submitted := True,
                 result := None \<rparr> \<rparr>)"
  have "submitPlayerExpression ev rc pid [] games = (Success, games(rc \<mapsto> ?g'))"
    using Some pl ns submit_ok[of games rc game pid ev "[]"]
    by (cases "playerId (player1 game) = pid")
      (simp_all add: evaluate_empty markSubmitted_def storeResult_def)
  with ok have g': "games' = games(rc \<mapsto> ?g')" by simp
  have look: "games' rc = Some ?g'" by (simp add: g')
  have r: "resolveRound rc games' = (Some (roundResult ?g'), games'(rc \<mapsto> resolvedGame ?g'))"
    using look by (rule resolveRound_Some)
  show "\<exists>game' res games''. games' rc = Some game' \<and>
        submitted (if playerId (player1 game') = pid then player1 game' else player2 game') \<and>
        expression (if playerId (player1 game') = pid then player1 game' else player2 game') = [] \<and>
        result (if playerId (player1 game') = pid then player1 game' else player2 game') = None \<and>
        resolveRound rc games' = (Some res, games'') \<and>
        prDamageType (if playerId (player1 game') = pid then rrPlayer1 res else rrPlayer2 res) = ''miss'' \<and>
        damageTaken (if playerId (player1 game') = pid then rrPlayer2 res else rrPlayer1 res) = 0"
  proof (cases "playerId (player1 game) = pid")
    case True
    then have n: "result (player1 ?g') = None" by simp
    show ?thesis
      apply (rule exI[of _ ?g'], rule exI[of _ "roundResult ?g'"], rule exI[of _ "games'(rc \<mapsto> resolvedGame ?g')"])
      using True look r null_p1[OF n] null1_taken[OF n]
      by (simp add: roundResult_simps)
  next
    case False
    then have n: "result (player2 ?g') = None" by simp
    show ?thesis
      apply (rule exI[of _ ?g'], rule exI[of _ "roundResult ?g'"], rule exI[of _ "games'(rc \<mapsto> resolvedGame ?g')"])
      using False look r null_p2[OF n] null2_taken[OF n]
      by (simp add: roundResult_simps)
  qed
qed

theorem skipPlayerTurn_witness:
  "skipPlayerTurn evalScript ''TEST4'' ''p2'' testGames =
     (Success, Map.empty(''TEST4'' \<mapsto> testGame \<lparr> player2 := (player2 testGame)
        \<lparr> expression := [], submitted := True, result := None \<rparr> \<rparr>)) \<and>
   (\<exists>res games''. resolveRound ''TEST4'' (Map.empty(''TEST4'' \<mapsto> testGame \<lparr> player2 := (player2 testGame)
        \<lparr> expression := [], submitted := True, result := None \<rparr> \<rparr>)) = (Some res, games'') \<and>
      prDamageType (rrPlayer2 res) = ''miss'' \<and> damageTaken (rrPlayer1 res) = 0)"
proof -
  let ?g' = "testGame \<lparr> player2 := (player2 testGame)
        \<lparr> expression := [], submitted := True, result := None \<rparr> \<rparr>"
  have s: "submitPlayerExpression evalScript ''TEST4'' ''p2'' [] testGames = (Success, Map.empty(''TEST4'' \<mapsto> ?g'))"
    using submit_ok[of testGames "''TEST4''" testGame "''p2''" evalScript "[]"]
    by (simp add: testGames_def testGame_sel evaluate_empty markSubmitted_def storeResult_def)
  have k: "skipPlayerTurn evalScript ''TEST4'' ''p2'' testGames = (Success, Map.empty(''TEST4'' \<mapsto> ?g'))"
    using skipPlayerTurn_is_empty_submit[of evalScript "''TEST4''" "''p2''" testGames] s by simp
  have p: "playerId (player1 ?g') \<noteq> ''p2''" by (simp add: testGame_sel)
  from skipPlayerTurn_is_empty_submit[of evalScript "''TEST4''" "''p2''" testGames "Map.empty(''TEST4'' \<mapsto> ?g')"] k
  obtain game' res games'' where
    "(Map.empty(''TEST4'' \<mapsto> ?g')) ''TEST4'' = Some game'"
    "resolveRound ''TEST4'' (Map.empty(''TEST4'' \<mapsto> ?g')) = (Some res, games'')"
    "prDamageType (if playerId (player1 game') = ''p2'' then rrPlayer1 res else rrPlayer2 res) = ''miss''"
    "damageTaken (if playerId (player1 game') = ''p2'' then rrPlayer2 res else rrPlayer1 res) = 0"
    by blast
  with p k show ?thesis by auto
qed


section \<open>Properties of the streak system\<close>








section \<open>Properties of the scoring\<close>

lemma floor_three_quarters: "\<lfloor>real_of_int r * 0.75\<rfloor> = (3 * r) div 4"
proof -
  have "real_of_int r * 0.75 = of_int (3 * r) / of_int 4" by simp
  then show ?thesis by (simp only: floor_divide_of_int_eq)
qed

text \<open>The raw damage: base, card bonus, five per distinct operator, and the division bonus.\<close>

lemma calculateNormalizedDamage_raw:
  "accuracy (attackDifference ps) = Some (m, ty) \<Longrightarrow>
   rawDamage (calculateNormalizedDamage ps) =
     BASE_DAMAGE + CARD_BONUSES (cardsUsed ps) + 5 * int (card (set (operatorsUsed ps))) +
     (if hasExactDivision ps \<and> ''/'' \<in> set (operatorsUsed ps) then 10 else 0)
   \<and> finalDamage (calculateNormalizedDamage ps) = \<lfloor>of_int (rawDamage (calculateNormalizedDamage ps)) * m\<rfloor>
   \<and> accuracyMultiplier (calculateNormalizedDamage ps) = m
   \<and> accuracyType (calculateNormalizedDamage ps) = ty
   \<and> \<not> missed (calculateNormalizedDamage ps)"
  by (simp add: calculateNormalizedDamage_def Let_def length_remdups_card_conv)

lemma calculateNormalizedDamage_miss:
  "accuracy (attackDifference ps) = None \<Longrightarrow>
   finalDamage (calculateNormalizedDamage ps) = 0 \<and> rawDamage (calculateNormalizedDamage ps) = 0
   \<and> accuracyType (calculateNormalizedDamage ps) = ''miss'' \<and> missed (calculateNormalizedDamage ps)"
  by (simp add: calculateNormalizedDamage_def Let_def)

lemma calculateDamage_miss_threshold:
  "miss (accuracyThresholds (DIFFICULTY_CONFIG diffic)) \<le> \<bar>r - of_int t\<bar> \<Longrightarrow>
   damage (calculateDamage (Some r) t diffic) = 0 \<and> isMiss (calculateDamage (Some r) t diffic)"
  by (cases diffic) (auto simp: calculateDamage_def Let_def)

lemma calculateDamage_below_threshold:
  "\<bar>r - of_int t\<bar> < miss (accuracyThresholds (DIFFICULTY_CONFIG diffic)) \<Longrightarrow>
   10 \<le> damage (calculateDamage (Some r) t diffic) \<and> \<not> isMiss (calculateDamage (Some r) t diffic)"
  by (cases diffic) (auto simp: calculateDamage_def Let_def)

text \<open>
  Claim C4, as amended. \<open>calculateNormalizedDamage\<close> takes no profile: it classifies the
  difference against the fixed bounds 0, 5 and 10. A difference of zero is \<open>perfect\<close> and
  keeps the raw damage; up to 5 it is \<open>close\<close> and the damage is the floor of 0.75 times
  the raw damage; up to 10 it is \<open>far\<close> with the floor of 0.5 times; above 10 it is a
  \<open>miss\<close> and the damage is zero whatever the card, operator and division bonuses. The
  profile's accuracy thresholds are read by the coordinator's \<open>calculateDamage\<close>, which
  gives zero damage and a miss from the profile's miss threshold on, and at least 10
  below it.
\<close>

theorem damage_classification:
  "(attackDifference ps = 0 \<longrightarrow>
      accuracyType (calculateNormalizedDamage ps) = ''perfect'' \<and>
      accuracyMultiplier (calculateNormalizedDamage ps) = 1 \<and>
      finalDamage (calculateNormalizedDamage ps) = rawDamage (calculateNormalizedDamage ps)) \<and>
   (attackDifference ps \<noteq> 0 \<and> attackDifference ps \<le> 5 \<longrightarrow>
      accuracyType (calculateNormalizedDamage ps) = ''close'' \<and>
      accuracyMultiplier (calculateNormalizedDamage ps) = 0.75 \<and>
      finalDamage (calculateNormalizedDamage ps) = (3 * rawDamage (calculateNormalizedDamage ps)) div 4) \<and>
   (5 < attackDifference ps \<and> attackDifference ps \<le> 10 \<longrightarrow>
      accuracyType (calculateNormalizedDamage ps) = ''far'' \<and>
      accuracyMultiplier (calculateNormalizedDamage ps) = 0.5 \<and>
      finalDamage (calculateNormalizedDamage ps) = rawDamage (calculateNormalizedDamage ps) div 2) \<and>
   (attackDifference ps \<le> 10 \<longrightarrow>
      rawDamage (calculateNormalizedDamage ps) =
        BASE_DAMAGE + CARD_BONUSES (cardsUsed ps) + 5 * int (card (set (operatorsUsed ps))) +
        (if hasExactDivision ps \<and> ''/'' \<in> set (operatorsUsed ps) then 10 else 0)) \<and>
   (10 < attackDifference ps \<longrightarrow>
      accuracyType (calculateNormalizedDamage ps) = ''miss'' \<and>
      missed (calculateNormalizedDamage ps) \<and> finalDamage (calculateNormalizedDamage ps) = 0) \<and>
   (miss (accuracyThresholds (DIFFICULTY_CONFIG diffic)) \<le> \<bar>r - of_int t\<bar> \<longrightarrow>
      damage (calculateDamage (Some r) t diffic) = 0 \<and> isMiss (calculateDamage (Some r) t diffic)) \<and>
   (\<bar>r - of_int t\<bar> < miss (accuracyThresholds (DIFFICULTY_CONFIG diffic)) \<longrightarrow>
      10 \<le> damage (calculateDamage (Some r) t diffic) \<and> \<not> isMiss (calculateDamage (Some r) t diffic))"
proof -
  let ?r = "calculateNormalizedDamage ps"
  have p: "attackDifference ps = 0 \<longrightarrow>
      accuracyType ?r = ''perfect'' \<and> accuracyMultiplier ?r = 1 \<and> finalDamage ?r = rawDamage ?r"
  proof
    assume "attackDifference ps = 0"
    then have "accuracy (attackDifference ps) = Some (1, ''perfect'')" by (simp add: accuracy_def)
    from calculateNormalizedDamage_raw[OF this]
    show "accuracyType ?r = ''perfect'' \<and> accuracyMultiplier ?r = 1 \<and> finalDamage ?r = rawDamage ?r"
      by simp
  qed
  have c: "attackDifference ps \<noteq> 0 \<and> attackDifference ps \<le> 5 \<longrightarrow>
      accuracyType ?r = ''close'' \<and> accuracyMultiplier ?r = 0.75 \<and>
      finalDamage ?r = (3 * rawDamage ?r) div 4"
  proof
    assume "attackDifference ps \<noteq> 0 \<and> attackDifference ps \<le> 5"
    then have "accuracy (attackDifference ps) = Some (0.75, ''close'')" by (simp add: accuracy_def)
    from calculateNormalizedDamage_raw[OF this]
    show "accuracyType ?r = ''close'' \<and> accuracyMultiplier ?r = 0.75 \<and>
      finalDamage ?r = (3 * rawDamage ?r) div 4"
      using floor_three_quarters[of "rawDamage ?r"] by simp
  qed
  have f: "5 < attackDifference ps \<and> attackDifference ps \<le> 10 \<longrightarrow>
      accuracyType ?r = ''far'' \<and> accuracyMultiplier ?r = 0.5 \<and>
      finalDamage ?r = rawDamage ?r div 2"
  proof
    assume "5 < attackDifference ps \<and> attackDifference ps \<le> 10"
    then have "accuracy (attackDifference ps) = Some (0.5, ''far'')" by (simp add: accuracy_def)
    from calculateNormalizedDamage_raw[OF this]
    show "accuracyType ?r = ''far'' \<and> accuracyMultiplier ?r = 0.5 \<and>
      finalDamage ?r = rawDamage ?r div 2"
      using floor_half[of "rawDamage ?r"] by simp
  qed
  have w: "attackDifference ps \<le> 10 \<longrightarrow>
      rawDamage ?r =
        BASE_DAMAGE + CARD_BONUSES (cardsUsed ps) + 5 * int (card (set (operatorsUsed ps))) +
        (if hasExactDivision ps \<and> ''/'' \<in> set (operatorsUsed ps) then 10 else 0)"
  proof
    assume "attackDifference ps \<le> 10"
    then consider "accuracy (attackDifference ps) = Some (1, ''perfect'')"
      | "accuracy (attackDifference ps) = Some (0.75, ''close'')"
      | "accuracy (attackDifference ps) = Some (0.5, ''far'')"
      by (cases "attackDifference ps = 0"; cases "attackDifference ps \<le> 5") (simp_all add: accuracy_def)
    then show "rawDamage ?r =
        BASE_DAMAGE + CARD_BONUSES (cardsUsed ps) + 5 * int (card (set (operatorsUsed ps))) +
        (if hasExactDivision ps \<and> ''/'' \<in> set (operatorsUsed ps) then 10 else 0)"
      using calculateNormalizedDamage_raw[of ps] by cases blast+
  qed
  have m: "10 < attackDifference ps \<longrightarrow>
      accuracyType ?r = ''miss'' \<and> missed ?r \<and> finalDamage ?r = 0"
  proof
    assume "10 < attackDifference ps"
    then have "accuracy (attackDifference ps) = None" by (simp add: accuracy_def)
    from calculateNormalizedDamage_miss[OF this]
    show "accuracyType ?r = ''miss'' \<and> missed ?r \<and> finalDamage ?r = 0" by simp
  qed
  have s1: "miss (accuracyThresholds (DIFFICULTY_CONFIG diffic)) \<le> \<bar>r - of_int t\<bar> \<longrightarrow>
      damage (calculateDamage (Some r) t diffic) = 0 \<and> isMiss (calculateDamage (Some r) t diffic)"
    using calculateDamage_miss_threshold by blast
  have s2: "\<bar>r - of_int t\<bar> < miss (accuracyThresholds (DIFFICULTY_CONFIG diffic)) \<longrightarrow>
      10 \<le> damage (calculateDamage (Some r) t diffic) \<and> \<not> isMiss (calculateDamage (Some r) t diffic)"
    using calculateDamage_below_threshold by blast
  show ?thesis
    apply (intro conjI)
          apply (rule p)
         apply (rule c)
        apply (rule f)
       apply (rule w)
      apply (rule m)
     apply (rule s1)
    apply (rule s2)
    done
qed

text \<open>
  Claim C4 as stated fails for the client's scoring: the hard profile's miss threshold is
  8, yet a difference of 9 still scores (half of the raw damage 25, rounded down), and
  the easy profile's miss threshold is 15, yet a difference of 12 is already a miss.
\<close>

theorem damage_classification_counterexample:
  "miss (glAccuracyThresholds (DIFFICULTY_CONFIG_gameLogic ''hard'')) = 8 \<and>
   accuracyType (calculateNormalizedDamage
     \<lparr> cardsUsed = 2, operatorsUsed = [''+''], attackDifference = 9, hasExactDivision = False \<rparr>) = ''far'' \<and>
   finalDamage (calculateNormalizedDamage
     \<lparr> cardsUsed = 2, operatorsUsed = [''+''], attackDifference = 9, hasExactDivision = False \<rparr>) = 12 \<and>
   miss (glAccuracyThresholds (DIFFICULTY_CONFIG_gameLogic ''easy'')) = 15 \<and>
   accuracyType (calculateNormalizedDamage
     \<lparr> cardsUsed = 2, operatorsUsed = [''+''], attackDifference = 12, hasExactDivision = False \<rparr>) = ''miss'' \<and>
   finalDamage (calculateNormalizedDamage
     \<lparr> cardsUsed = 2, operatorsUsed = [''+''], attackDifference = 12, hasExactDivision = False \<rparr>) = 0"
  by (simp add: DIFFICULTY_CONFIG_gameLogic_def calculateNormalizedDamage_def accuracy_def
      BASE_DAMAGE_def CARD_BONUSES_def Let_def)

theorem damage_classification_witness:
  "finalDamage (calculateNormalizedDamage
     \<lparr> cardsUsed = 3, operatorsUsed = [''+'', ''*'', ''+''], attackDifference = 3,
       hasExactDivision = False \<rparr>) = 30 \<and>
   finalDamage (calculateNormalizedDamage
     \<lparr> cardsUsed = 4, operatorsUsed = [''+'', ''*'', ''/''], attackDifference = 11,
       hasExactDivision = True \<rparr>) = 0 \<and>
   damage (calculateDamage (Some 30) 10 easy) = 0 \<and>
   10 \<le> damage (calculateDamage (Some 24) 10 easy)"
proof -
  let ?a = "\<lparr> cardsUsed = 3, operatorsUsed = [''+'', ''*'', ''+''], attackDifference = 3,
       hasExactDivision = False \<rparr>"
  let ?b = "\<lparr> cardsUsed = 4, operatorsUsed = [''+'', ''*'', ''/''], attackDifference = 11,
       hasExactDivision = True \<rparr>"
  have c: "card {''+'', ''*'', ''+''} = 2" by (simp add: card_insert_if)
  have 1: "finalDamage (calculateNormalizedDamage ?a) = 30"
    using damage_classification[of ?a easy 30 10]
    by (simp add: BASE_DAMAGE_def CARD_BONUSES_def c)
  have 2: "finalDamage (calculateNormalizedDamage ?b) = 0"
    using damage_classification[of ?b easy 30 10] by simp
  have 3: "damage (calculateDamage (Some 30) 10 easy) = 0"
    using damage_classification[of ?a easy 30 10] by simp
  have 4: "10 \<le> damage (calculateDamage (Some 24) 10 easy)"
    using damage_classification[of ?a easy 24 10] by simp
  from 1 2 3 4 show ?thesis by simp
qed

section \<open>Properties of target generation and of the solver\<close>

subsection \<open>The reachable set and the solver\<close>

text \<open>
  \<open>possibleResults\<close> is the set of absolute values of what the number search visits
  (\<open>explore_set\<close>). The solver returns an expression exactly for the values that its
  own search visits, and the expression it returns belongs to an item of that value
  (\<open>exploreItems_sound\<close>, \<open>exploreItems_complete\<close>); for cards and variable values that
  are not negative it finds an expression for every value of \<open>possibleResults\<close>
  (\<open>findSolution_complete\<close>).
\<close>

lemma pairSteps_mem:
  "ys \<in> set (pairSteps f xs) \<longleftrightarrow>
     (\<exists>i j res. i < length xs \<and> j < length xs \<and> i \<noteq> j \<and> res \<in> set (f (xs ! i) (xs ! j)) \<and>
        ys = res # remaining i j xs)"
  apply (auto simp: pairSteps_def split: if_splits)
   apply blast
  subgoal for i j res
    by (rule bexI[of _ i], rule bexI[of _ j]) auto
  done

lemma remaining_map: "remaining i j (map h xs) = map h (remaining i j xs)"
proof -
  have "enumerate 0 (map h xs) = map (\<lambda>p. (fst p, h (snd p))) (enumerate 0 xs)"
    by (simp add: enumerate_eq_zip zip_map2 case_prod_beta)
  then show ?thesis
    by (simp add: remaining_def filter_map comp_def)
qed

lemma remaining_sym: "remaining i j xs = remaining j i xs"
  by (simp add: remaining_def conj_commute)

lemma fold_addResult: "set (fold addResult ns acc) = set acc \<union> abs ` set ns"
  by (induction ns arbitrary: acc) (auto simp: addResult_def)

lemma fold_union:
  assumes "\<And>x a. x \<in> set xs \<Longrightarrow> set (g x a) = set a \<union> R x"
  shows "set (fold g xs a) = set a \<union> (\<Union>x \<in> set xs. R x)"
  using assms by (induction xs arbitrary: a) auto

lemma reach_unfold:
  "{n. reach f xs n} = set xs \<union> (if length xs = 1 then {} else (\<Union>ys \<in> set (pairSteps f xs). {n. reach f ys n}))"
  by (auto intro: reach.intros elim: reach.cases)

lemma explore_set:
  "set (explore d ns acc) = set acc \<union> abs ` {n. reach (nextSteps d) ns n}"
proof (induction d ns acc rule: explore.induct)
  case (1 d ns acc)
  show ?case
  proof (cases "length ns = 1")
    case True
    then show ?thesis
      by (subst explore.simps, subst reach_unfold) (simp add: fold_addResult)
  next
    case False
    have "set (fold (\<lambda>next a. explore d next a) (pairSteps (nextSteps d) ns) (fold addResult ns acc))
          = set (fold addResult ns acc) \<union> (\<Union>ys \<in> set (pairSteps (nextSteps d) ns). abs ` {n. reach (nextSteps d) ys n})"
      by (rule fold_union) (use 1 False in auto)
    then show ?thesis using False
      by (subst explore.simps, subst reach_unfold) (auto simp: fold_addResult Let_def)
  qed
qed


lemma hits_iff: "hits t it \<longleftrightarrow> val it = t"
proof -
  have "\<bar>real_of_int (val it) - real_of_int t\<bar> = real_of_int \<bar>val it - t\<bar>" by simp
  moreover have "real_of_int \<bar>val it - t\<bar> < 0.0001 \<longleftrightarrow> \<bar>val it - t\<bar> = 0"
  proof
    assume a: "real_of_int \<bar>val it - t\<bar> < 0.0001"
    have "real_of_int \<bar>val it - t\<bar> < real_of_int 1" using a by simp
    then have "\<bar>val it - t\<bar> < 1" by (simp only: of_int_less_iff)
    then show "\<bar>val it - t\<bar> = 0" by simp
  next
    assume "\<bar>val it - t\<bar> = 0"
    then show "real_of_int \<bar>val it - t\<bar> < 0.0001" by simp
  qed
  ultimately show ?thesis unfolding hits_def by simp
qed

lemma firstSome_None: "firstSome g xs = None \<longleftrightarrow> (\<forall>x \<in> set xs. g x = None)"
  by (induction xs) (auto split: option.splits)

lemma exploreItems_complete:
  "reach (itemOps d) items it \<Longrightarrow> val it = t \<Longrightarrow> exploreItems t d items \<noteq> None"
proof (induction rule: reach.induct)
  case (here x xs)
  then have "find (hits t) xs \<noteq> None" by (auto simp: find_None_iff hits_iff)
  then show ?case by (subst exploreItems.simps) (auto split: option.splits)
next
  case (step xs ys x)
  then have "exploreItems t d ys \<noteq> None" by simp
  with step.hyps(2) have "firstSome (\<lambda>next. exploreItems t d next) (pairSteps (itemOps d) xs) \<noteq> None"
    by (auto simp: firstSome_None)
  with step.hyps(1) show ?case by (subst exploreItems.simps) (auto split: option.splits)
qed

lemma itemOps_val: "map val (itemOps d a b) = nextSteps d (val a) (val b)"
  by (simp add: itemOps_def nextSteps_def)

lemma pairSteps_val:
  "ns \<in> set (pairSteps (nextSteps d) (map val items)) \<Longrightarrow>
   \<exists>ys \<in> set (pairSteps (itemOps d) items). map val ys = ns"
proof -
  assume "ns \<in> set (pairSteps (nextSteps d) (map val items))"
  then obtain i j res where ij: "i < length items" "j < length items" "i \<noteq> j"
    and res: "res \<in> set (nextSteps d (val (items ! i)) (val (items ! j)))"
    and ns: "ns = res # remaining i j (map val items)"
    by (auto simp: pairSteps_mem)
  from res obtain op where op: "op \<in> set (itemOps d (items ! i) (items ! j))" "val op = res"
    unfolding itemOps_val[symmetric] by auto
  have "op # remaining i j items \<in> set (pairSteps (itemOps d) items)"
    using ij op(1) by (auto simp: pairSteps_mem)
  moreover have "map val (op # remaining i j items) = ns"
    by (simp add: ns op(2) remaining_map)
  ultimately show ?thesis by blast
qed

lemma reach_items:
  "reach (nextSteps d) ns n \<Longrightarrow> ns = map val items \<Longrightarrow> \<exists>it. reach (itemOps d) items it \<and> val it = n"
proof (induction arbitrary: items rule: reach.induct)
  case (here x xs)
  then show ?case by (auto intro: reach.here)
next
  case (step xs ys x)
  from step.hyps(2) step.prems obtain zs where zs: "zs \<in> set (pairSteps (itemOps d) items)" "map val zs = ys"
    using pairSteps_val by blast
  from step.IH[of zs] zs(2) obtain it where "reach (itemOps d) zs it" "val it = x" by auto
  moreover have "length items \<noteq> 1" using step.hyps(1) step.prems by simp
  ultimately show ?case using zs(1) by (blast intro: reach.step)
qed

lemma jsRem_zero_iff: "jsRem a b = 0 \<longleftrightarrow> b dvd a"
  by (auto simp: jsRem_def sgn_if mod_eq_0_iff_dvd)

lemma nextSteps_abs:
  assumes "res \<in> set (nextSteps d a b)"
  shows "\<bar>res\<bar> \<in> set (nextSteps d \<bar>a\<bar> \<bar>b\<bar>) \<union> set (nextSteps d \<bar>b\<bar> \<bar>a\<bar>)"
proof -
  have dv: "b \<noteq> 0 \<Longrightarrow> b dvd a \<Longrightarrow> \<bar>a div b\<bar> = \<bar>a\<bar> div \<bar>b\<bar>"
    by (metis abs_mult dvd_mult_div_cancel abs_dvd_iff dvd_abs_iff nonzero_mult_div_cancel_left abs_eq_0)
  from assms consider "res = a + b" | "res = a - b" | "d \<noteq> ''easy''" "res = a * b"
    | "d \<noteq> ''easy''" "b \<noteq> 0" "b dvd a" "res = a div b"
    by (auto simp: nextSteps_def jsRem_zero_iff split: if_splits)
  then show ?thesis
  proof cases
    case 1
    then show ?thesis by (auto simp: nextSteps_def abs_if)
  next
    case 2
    then show ?thesis by (auto simp: nextSteps_def abs_if)
  next
    case 3
    then show ?thesis by (simp add: nextSteps_def abs_mult)
  next
    case 4
    then show ?thesis using dv by (simp add: nextSteps_def jsRem_zero_iff)
  qed
qed

lemma reach_abs:
  "reach (nextSteps d) ns n \<Longrightarrow> reach (nextSteps d) (map abs ns) \<bar>n\<bar>"
proof (induction rule: reach.induct)
  case (here x xs)
  then show ?case by (auto intro: reach.here)
next
  case (step xs ys x)
  from step.hyps(2) obtain i j res where ij: "i < length xs" "j < length xs" "i \<noteq> j"
    and res: "res \<in> set (nextSteps d (xs ! i) (xs ! j))"
    and ys: "ys = res # remaining i j xs"
    by (auto simp: pairSteps_mem)
  have ys': "map abs ys = \<bar>res\<bar> # remaining i j (map abs xs)"
    by (simp add: ys remaining_map)
  have "map abs ys \<in> set (pairSteps (nextSteps d) (map abs xs))"
  proof (cases "\<bar>res\<bar> \<in> set (nextSteps d \<bar>xs ! i\<bar> \<bar>xs ! j\<bar>)")
    case True
    show ?thesis unfolding pairSteps_mem ys'
      using ij True by (intro exI[of _ i] exI[of _ j] exI[of _ "\<bar>res\<bar>"]) simp
  next
    case False
    with nextSteps_abs[OF res] have r: "\<bar>res\<bar> \<in> set (nextSteps d \<bar>xs ! j\<bar> \<bar>xs ! i\<bar>)" by simp
    have "map abs ys = \<bar>res\<bar> # remaining j i (map abs xs)"
      using ys' remaining_sym[of i j] by simp
    then show ?thesis unfolding pairSteps_mem
      using ij r by (intro exI[of _ j] exI[of _ i] exI[of _ "\<bar>res\<bar>"]) simp
  qed
  moreover have "length (map abs xs) \<noteq> 1" using step.hyps(1) by simp
  ultimately show ?case using step.IH by (blast intro: reach.step)
qed

lemma findSolution_items_val:
  "map val (map (\<lambda>c. \<lparr> val = c, expr = toString c, precedence = 3 \<rparr>) cs @
        map (\<lambda>(symbol, v). \<lparr> val = v, expr = [symbol], precedence = 3 \<rparr>) vv) = cs @ map snd vv"
  by (simp add: comp_def case_prod_beta)

lemma findSolution_complete:
  assumes "\<forall>c \<in> set (cs @ map snd vv). 0 \<le> c"
    and "v \<in> set (possibleResults d (cs @ map snd vv))"
  shows "findSolution v cs d vv \<noteq> None"
proof -
  let ?ns = "cs @ map snd vv"
  from assms(2) obtain n where n: "reach (nextSteps d) ?ns n" "v = \<bar>n\<bar>"
    by (auto simp: possibleResults_def explore_set)
  have e: "map abs ?ns = ?ns" using assms(1) by (intro map_idI) auto
  have "reach (nextSteps d) (map abs ?ns) v" unfolding n(2) by (rule reach_abs[OF n(1)])
  then have "reach (nextSteps d) ?ns v" by (simp only: e)
  from reach_items[OF this findSolution_items_val[symmetric]]
  obtain it where "reach (itemOps d) (map (\<lambda>c. \<lparr> val = c, expr = toString c, precedence = 3 \<rparr>) cs @
        map (\<lambda>(symbol, v). \<lparr> val = v, expr = [symbol], precedence = 3 \<rparr>) vv) it" "val it = v"
    by blast
  then show ?thesis unfolding findSolution_def by (rule exploreItems_complete)
qed


lemma firstSome_Some: "firstSome g xs = Some r \<Longrightarrow> \<exists>x \<in> set xs. g x = Some r"
  by (induction xs) (auto split: option.splits)

lemma exploreItems_sound:
  "exploreItems t d items = Some e \<Longrightarrow> \<exists>it. reach (itemOps d) items it \<and> val it = t \<and> expr it = e"
proof (induction t d items rule: exploreItems.induct)
  case (1 t d items)
  show ?case
  proof (cases "find (hits t) items")
    case (Some it)
    then have "it \<in> set items" "hits t it" by (auto simp: find_Some_iff)
    moreover have "e = expr it" using "1.prems" Some by (subst (asm) exploreItems.simps) simp
    ultimately show ?thesis by (auto simp: hits_iff intro: reach.here)
  next
    case None
    with "1.prems" have ne: "length items \<noteq> 1"
      and fs: "firstSome (\<lambda>next. exploreItems t d next) (pairSteps (itemOps d) items) = Some e"
      by (subst (asm) exploreItems.simps, simp split: if_splits)+
    from firstSome_Some[OF fs] obtain ys where ys: "ys \<in> set (pairSteps (itemOps d) items)"
      "exploreItems t d ys = Some e" by blast
    from "1.IH"[OF None ne ys] obtain it where "reach (itemOps d) ys it" "val it = t" "expr it = e"
      by blast
    then show ?thesis using ne ys(1) by (blast intro: reach.step)
  qed
qed

subsection \<open>The client's target generator\<close>

text \<open>
  \<open>generateTargetByDifficulty\<close> returns a value of \<open>possibleResults\<close> inside the target
  range whenever there is one, and a value clamped into the range otherwise.
\<close>

lemma random_index:
  assumes "0 \<le> u" "u < 1" "0 < n"
  shows "nat \<lfloor>u * of_nat n\<rfloor> < n"
proof -
  have "u * of_nat n < of_nat n" using assms by simp
  then have "\<lfloor>u * of_nat n\<rfloor> < int n" by (simp add: floor_less_iff)
  moreover have "0 \<le> \<lfloor>u * of_nat n\<rfloor>" using assms by simp
  ultimately show ?thesis by linarith
qed

lemma generateTargetByDifficulty_reachable:
  assumes "0 \<le> u" "u < 1"
    and "\<exists>v \<in> set (possibleResults d (cs @ map snd vv)).
           rmin (glTargetRange (DIFFICULTY_CONFIG_gameLogic d)) \<le> v \<and>
           v \<le> rmax (glTargetRange (DIFFICULTY_CONFIG_gameLogic d))"
  shows "generateTargetByDifficulty d cs vv u \<in> set (possibleResults d (cs @ map snd vv)) \<and>
         rmin (glTargetRange (DIFFICULTY_CONFIG_gameLogic d)) \<le> generateTargetByDifficulty d cs vv u \<and>
         generateTargetByDifficulty d cs vv u \<le> rmax (glTargetRange (DIFFICULTY_CONFIG_gameLogic d))"
proof -
  let ?lo = "rmin (glTargetRange (DIFFICULTY_CONFIG_gameLogic d))"
  let ?hi = "rmax (glTargetRange (DIFFICULTY_CONFIG_gameLogic d))"
  let ?valid = "filter (\<lambda>v. ?lo \<le> v \<and> v \<le> ?hi) (possibleResults d (cs @ map snd vv))"
  have ne: "0 < length ?valid" using assms(3) by (auto simp: filter_empty_conv)
  have g: "generateTargetByDifficulty d cs vv u = ?valid ! nat \<lfloor>u * of_nat (length ?valid)\<rfloor>"
    using ne by (simp add: generateTargetByDifficulty_def Let_def)
  have "?valid ! nat \<lfloor>u * of_nat (length ?valid)\<rfloor> \<in> set ?valid"
    using random_index[OF assms(1,2) ne] by (rule nth_mem)
  then show ?thesis unfolding g by auto
qed

lemma generateTargetByDifficulty_fallback:
  assumes "\<not> (\<exists>v \<in> set (possibleResults d (cs @ map snd vv)).
           rmin (glTargetRange (DIFFICULTY_CONFIG_gameLogic d)) \<le> v \<and>
           v \<le> rmax (glTargetRange (DIFFICULTY_CONFIG_gameLogic d)))"
  shows "rmin (glTargetRange (DIFFICULTY_CONFIG_gameLogic d)) \<le> generateTargetByDifficulty d cs vv u \<and>
         generateTargetByDifficulty d cs vv u \<le> rmax (glTargetRange (DIFFICULTY_CONFIG_gameLogic d))"
proof -
  have r: "rmin (glTargetRange (DIFFICULTY_CONFIG_gameLogic d)) \<le> rmax (glTargetRange (DIFFICULTY_CONFIG_gameLogic d))"
    by (simp add: DIFFICULTY_CONFIG_gameLogic_def)
  have "filter (\<lambda>v. rmin (glTargetRange (DIFFICULTY_CONFIG_gameLogic d)) \<le> v \<and>
           v \<le> rmax (glTargetRange (DIFFICULTY_CONFIG_gameLogic d))) (possibleResults d (cs @ map snd vv)) = []"
    using assms by (auto simp: filter_empty_conv)
  then show ?thesis using r by (simp add: generateTargetByDifficulty_def Let_def)
qed

subsection \<open>The coordinator's target generator\<close>

lemma possibleResults_easy_1119:
  "possibleResults ''easy'' [1, 1, 1, 9] = [1, 9, 2, 3, 12, 6, 10, 8, 11, 7, 0]"
  by code_simp

lemma possibleResults_medium_3335:
  "possibleResults ''medium'' [3, 3, 3, 5] =
     [3, 5, 6, 9, 14, 4, 45, 8, 2, 15, 18, 23, 13, 90, 7, 10, 11, 33, 1, 30, 27,
      48, 12, 21, 0, 17, 60, 32, 22, 135, 42, 72, 24, 20, 16, 54, 36]"
  by code_simp

text \<open>
  Claim C1 fails on the coordinator's \<open>generateTarget\<close>, the function that
  \<open>initializeGame\<close> and \<open>startNextRound\<close> call. In an easy game with the cards 1, 1, 1, 9,
  when the shuffle leaves the three ones in front and every sign comes out positive, the
  sum 3 is clamped to the target 5. The values reachable from these cards with \<open>+\<close> and
  \<open>-\<close> are 0 to 3 and 6 to 12: the target 5 is not among them, although reachable values
  (6, for one) lie in the target range 5 to 30, so the clamped fallback that the claim
  excepts does not apply. In a medium game with the cards 3, 3, 3 and \<open>x = 5\<close>, positive
  signs and the factor 2 for \<open>x\<close> give the target 19 without any clamping, and 19 is not
  reachable from 3, 3, 3, 5 even with all four operators (the medium profile of the
  coordinator has only \<open>+\<close>, \<open>-\<close> and \<open>*\<close>).
\<close>

theorem generateTarget_unreachable:
  "generateTarget easy [1, 1, 1, 9] []
     \<lparr> shuffled = [1, 1, 1, 9], signDraws = [0.5, 0.5, 0.5], factorDraw = 0.7 \<rparr> = 5 \<and>
   5 \<notin> set (possibleResults ''easy'' [1, 1, 1, 9]) \<and>
   6 \<in> set (possibleResults ''easy'' [1, 1, 1, 9]) \<and>
   rmin (targetRange (DIFFICULTY_CONFIG easy)) \<le> 6 \<and>
   6 \<le> rmax (targetRange (DIFFICULTY_CONFIG easy)) \<and>
   generateTarget medium [3, 3, 3] [(CHR ''x'', 5)]
     \<lparr> shuffled = [3, 3, 3], signDraws = [0.5, 0.5, 0.5], factorDraw = 0.2 \<rparr> = 19 \<and>
   rmin (targetRange (DIFFICULTY_CONFIG medium)) \<le> 19 \<and>
   19 \<le> rmax (targetRange (DIFFICULTY_CONFIG medium)) \<and>
   19 \<notin> set (possibleResults ''medium'' [3, 3, 3, 5])"
proof -
  have u: "[0..<3] = [0, 1, 2]" by (simp add: upt_rec)
  have e: "generateTarget easy [1, 1, 1, 9] []
     \<lparr> shuffled = [1, 1, 1, 9], signDraws = [0.5, 0.5, 0.5], factorDraw = 0.7 \<rparr> = 5"
    using u by (simp add: generateTarget_def Let_def)
  have m: "generateTarget medium [3, 3, 3] [(CHR ''x'', 5)]
     \<lparr> shuffled = [3, 3, 3], signDraws = [0.5, 0.5, 0.5], factorDraw = 0.2 \<rparr> = 19"
    using u by (simp add: generateTarget_def Let_def)
  show ?thesis
    using e m by (simp add: possibleResults_easy_1119 possibleResults_medium_3335)
qed

lemma evalArith_18_3_3: "evalArith ''18 / 3 * 3'' = Some 18"
  by (simp add: evalArith_def isDigit_def isSpace_def isOp_def digitVal_def prec_def)

lemma evalArith_8_6_3: "evalArith ''8 / 6 / 3'' = Some (4 / 9)"
  by (simp add: evalArith_def isDigit_def isSpace_def isOp_def digitVal_def prec_def)

text \<open>
  Claim C2 fails on \<open>findSolution\<close>: \<open>wrap(b, 2)\<close> leaves a product or a quotient on the
  right of a division without parentheses. With the cards 3, 3, 18 in a hard game the
  value 2 is reachable (as 18 / (3 * 3)); the search returns the string \<open>18 / 3 * 3\<close>,
  which evaluates to 18. With the cards 6, 3, 8 the value 4 is reachable (as
  8 / (6 / 3)); the search returns \<open>8 / 6 / 3\<close>, which evaluates to 4/9.
\<close>

theorem findSolution_wrong_grouping:
  "2 \<in> set (possibleResults ''hard'' [3, 3, 18]) \<and>
   findSolution 2 [3, 3, 18] ''hard'' [] = Some ''18 / 3 * 3'' \<and>
   evaluateExpressionWithVariables evalArith ''18 / 3 * 3'' [] = Some 18 \<and>
   4 \<in> set (possibleResults ''hard'' [6, 3, 8]) \<and>
   findSolution 4 [6, 3, 8] ''hard'' [] = Some ''8 / 6 / 3'' \<and>
   evaluateExpressionWithVariables evalArith ''8 / 6 / 3'' [] = Some (4 / 9)"
proof -
  have a: "2 \<in> set (possibleResults ''hard'' [3, 3, 18])" by code_simp
  have b: "findSolution 2 [3, 3, 18] ''hard'' [] = Some ''18 / 3 * 3''" by code_simp
  have c: "4 \<in> set (possibleResults ''hard'' [6, 3, 8])" by code_simp
  have d: "findSolution 4 [6, 3, 8] ''hard'' [] = Some ''8 / 6 / 3''" by code_simp
  show ?thesis
    by (simp add: a b c d evaluateExpressionWithVariables_def evalArith_18_3_3 evalArith_8_6_3)
qed

end
